theory Spec2Isabelle
  imports Main "HOL-Library.Sublist" "HOL-Library.Char_ord"
begin

section \<open>Conventions\<close>

text \<open>
  The development embeds the validation engine of \<^verbatim>\<open>server/routes.ts\<close> and the
  in-memory store of \<^verbatim>\<open>server/storage.ts\<close>.

  \<^item> A JavaScript string is a \<^typ>\<open>string\<close>; a \<^typ>\<open>char\<close> stands for one UTF-16 code unit
    below 256, so texts are those of the Latin-1 range.
  \<^item> A value that may be \<^verbatim>\<open>undefined\<close> or \<^verbatim>\<open>null\<close> is an \<^typ>\<open>'a option\<close>.
  \<^item> \<^verbatim>\<open>new Date()\<close> is a parameter \<open>now\<close> of type \<^typ>\<open>nat\<close>.
  \<^item> A JavaScript \<^verbatim>\<open>Map\<close> is an association list in insertion order with unique keys.
\<close>

section \<open>JavaScript helpers\<close>

text \<open>\<^verbatim>\<open>s.includes(sub)\<close>: \<open>sub\<close> occurs in \<open>s\<close> as a contiguous block.\<close>

fun str_includes :: "string \<Rightarrow> string \<Rightarrow> bool" where
  "str_includes [] sub = (sub = [])"
| "str_includes (c # cs) sub = (prefix sub (c # cs) \<or> str_includes cs sub)"

text \<open>Truthiness of an optional string: \<^verbatim>\<open>undefined\<close>, \<^verbatim>\<open>null\<close> and \<^verbatim>\<open>''\<close> are falsy.\<close>

fun truthy :: "string option \<Rightarrow> bool" where
  "truthy None = False"
| "truthy (Some s) = (s \<noteq> [])"

text \<open>\<^verbatim>\<open>a || b\<close> on optional strings.\<close>

definition or_else :: "string option \<Rightarrow> string option \<Rightarrow> string option" where
  "or_else a b = (if truthy a then a else b)"

text \<open>\<^verbatim>\<open>Map.prototype.set\<close>: an existing key keeps its place, a new key goes last.\<close>

fun map_set :: "'k \<Rightarrow> 'v \<Rightarrow> ('k \<times> 'v) list \<Rightarrow> ('k \<times> 'v) list" where
  "map_set k v [] = [(k, v)]"
| "map_set k v (e # m) = (if fst e = k then (k, v) # m else e # map_set k v m)"

definition map_delete :: "'k \<Rightarrow> ('k \<times> 'v) list \<Rightarrow> ('k \<times> 'v) list" where
  "map_delete k m = filter (\<lambda>e. fst e \<noteq> k) m"

definition map_values :: "('k \<times> 'v) list \<Rightarrow> 'v list" where
  "map_values m = map snd m"

section \<open>Data model (shared/schema.ts)\<close>

record uploadedFile =
  file_id :: nat
  file_name :: string
  file_size :: nat
  file_lineCount :: nat
  file_status :: string
  file_uploadedAt :: "nat option"

record account =
  acc_id :: nat
  acc_fileId :: "nat option"
  acc_email :: string
  acc_password :: string
  acc_storeUrl :: "string option"
  acc_status :: string
  acc_errorMessage :: "string option"
  acc_validatedAt :: "nat option"

record settings =
  concurrentThreads :: nat
  timeoutSeconds :: nat
  retries :: nat

record validationJob =
  job_id :: nat
  job_status :: string
  job_settings :: settings
  job_totalAccounts :: nat
  job_processedAccounts :: nat
  job_validAccounts :: nat
  job_invalidAccounts :: nat
  job_errorAccounts :: nat
  job_startedAt :: "nat option"
  job_pausedAt :: "nat option"
  job_completedAt :: "nat option"

record activityLog =
  log_id :: nat
  log_level :: string
  log_message :: string
  log_timestamp :: "nat option"

section \<open>MemStorage (server/storage.ts)\<close>

record storage =
  files :: "(nat \<times> uploadedFile) list"
  accounts :: "(nat \<times> account) list"
  jobs :: "(nat \<times> validationJob) list"
  logs :: "(nat \<times> activityLog) list"
  currentFileId :: nat
  currentAccountId :: nat
  currentJobId :: nat
  currentLogId :: nat

definition emptyStorage :: storage where
  "emptyStorage = \<lparr> files = [], accounts = [], jobs = [], logs = [],
     currentFileId = 1, currentAccountId = 1, currentJobId = 1, currentLogId = 1 \<rparr>"

definition getAllAccounts :: "storage \<Rightarrow> account list" where
  "getAllAccounts s = map_values (accounts s)"

definition updateAccountStatus ::
  "nat \<Rightarrow> nat \<Rightarrow> string \<Rightarrow> string option \<Rightarrow> string option \<Rightarrow> storage \<Rightarrow> storage" where
  "updateAccountStatus now i st su em s =
     (case map_of (accounts s) i of
        None \<Rightarrow> s
      | Some a \<Rightarrow> s\<lparr> accounts := map_set i
          (a\<lparr> acc_status := st,
              acc_storeUrl := or_else su (acc_storeUrl a),
              acc_errorMessage := or_else em (acc_errorMessage a),
              acc_validatedAt := Some now \<rparr>) (accounts s) \<rparr>)"

record insertAccount =
  ia_fileId :: "nat option"
  ia_email :: string
  ia_password :: string
  ia_storeUrl :: "string option"
  ia_status :: "string option"
  ia_errorMessage :: "string option"

text \<open>\<^verbatim>\<open>createAccount\<close>: falsy optional fields become \<^verbatim>\<open>null\<close>, a falsy status \<^verbatim>\<open>'pending'\<close>.\<close>

definition createAccount :: "insertAccount \<Rightarrow> storage \<Rightarrow> account \<times> storage" where
  "createAccount ins s =
     (let a = \<lparr> acc_id = currentAccountId s,
                 acc_fileId = (if ia_fileId ins = Some 0 then None else ia_fileId ins),
                 acc_email = ia_email ins,
                 acc_password = ia_password ins,
                 acc_storeUrl = or_else (ia_storeUrl ins) None,
                 acc_status = (if truthy (ia_status ins) then the (ia_status ins) else ''pending''),
                 acc_errorMessage = or_else (ia_errorMessage ins) None,
                 acc_validatedAt = None \<rparr>
      in (a, s\<lparr> currentAccountId := currentAccountId s + 1,
                 accounts := map_set (acc_id a) a (accounts s) \<rparr>))"

fun createAccountsBatch :: "insertAccount list \<Rightarrow> storage \<Rightarrow> account list \<times> storage" where
  "createAccountsBatch [] s = ([], s)"
| "createAccountsBatch (ins # rest) s =
     (let (a, s1) = createAccount ins s; (as, s2) = createAccountsBatch rest s1
      in (a # as, s2))"

definition createFile :: "nat \<Rightarrow> string \<Rightarrow> nat \<Rightarrow> nat \<Rightarrow> string \<Rightarrow> storage \<Rightarrow> uploadedFile \<times> storage" where
  "createFile now name sz lineCount st s =
     (let f = \<lparr> file_id = currentFileId s, file_name = name, file_size = sz,
                 file_lineCount = lineCount,
                 file_status = (if st = [] then ''pending'' else st),
                 file_uploadedAt = Some now \<rparr>
      in (f, s\<lparr> currentFileId := currentFileId s + 1,
                 files := map_set (file_id f) f (files s) \<rparr>))"

text \<open>\<^verbatim>\<open>deleteFile\<close> removes the file and every account whose \<open>fileId\<close> is the file's id.\<close>

definition deleteFile :: "nat \<Rightarrow> storage \<Rightarrow> storage" where
  "deleteFile i s =
     s\<lparr> files := map_delete i (files s),
        accounts := fold map_delete
           (map fst (filter (\<lambda>e. acc_fileId (snd e) = Some i) (accounts s))) (accounts s) \<rparr>"

record insertValidationJob =
  ij_status :: string
  ij_settings :: settings
  ij_totalAccounts :: nat
  ij_processedAccounts :: nat
  ij_validAccounts :: nat
  ij_invalidAccounts :: nat
  ij_errorAccounts :: nat

definition createValidationJob :: "insertValidationJob \<Rightarrow> storage \<Rightarrow> validationJob \<times> storage" where
  "createValidationJob ins s =
     (let j = \<lparr> job_id = currentJobId s,
                 job_status = (if ij_status ins = [] then ''idle'' else ij_status ins),
                 job_settings = ij_settings ins,
                 job_totalAccounts = ij_totalAccounts ins,
                 job_processedAccounts = ij_processedAccounts ins,
                 job_validAccounts = ij_validAccounts ins,
                 job_invalidAccounts = ij_invalidAccounts ins,
                 job_errorAccounts = ij_errorAccounts ins,
                 job_startedAt = None, job_pausedAt = None, job_completedAt = None \<rparr>
      in (j, s\<lparr> currentJobId := currentJobId s + 1,
                 jobs := map_set (job_id j) j (jobs s) \<rparr>))"

text \<open>
  \<^verbatim>\<open>getCurrentJob\<close>: the first job that is running or paused, otherwise the job stored last
  (\<^verbatim>\<open>jobs[jobs.length - 1]\<close>, which is \<^verbatim>\<open>undefined\<close> when there is no job).
\<close>

definition getCurrentJob :: "storage \<Rightarrow> validationJob option" where
  "getCurrentJob s =
     (let js = map_values (jobs s)
      in case find (\<lambda>j. job_status j = ''running'' \<or> job_status j = ''paused'') js of
           Some j \<Rightarrow> Some j
         | None \<Rightarrow> (if js = [] then None else Some (last js)))"

definition updateJobStatus :: "nat \<Rightarrow> nat \<Rightarrow> string \<Rightarrow> storage \<Rightarrow> storage" where
  "updateJobStatus now i st s =
     (case map_of (jobs s) i of
        None \<Rightarrow> s
      | Some j \<Rightarrow>
          (let u = j\<lparr> job_status := st \<rparr>;
               u' = (if st = ''running'' then u\<lparr> job_startedAt := Some now, job_pausedAt := None \<rparr>
                     else if st = ''paused'' then u\<lparr> job_pausedAt := Some now \<rparr>
                     else if st = ''stopped'' \<or> st = ''completed''
                          then u\<lparr> job_completedAt := Some now \<rparr>
                     else u)
           in s\<lparr> jobs := map_set i u' (jobs s) \<rparr>))"

definition updateJobProgress :: "nat \<Rightarrow> nat \<Rightarrow> nat \<Rightarrow> nat \<Rightarrow> nat \<Rightarrow> storage \<Rightarrow> storage" where
  "updateJobProgress i processed valid invalid errors s =
     (case map_of (jobs s) i of
        None \<Rightarrow> s
      | Some j \<Rightarrow> s\<lparr> jobs := map_set i
          (j\<lparr> job_processedAccounts := processed,
              job_validAccounts := valid,
              job_invalidAccounts := invalid,
              job_errorAccounts := errors \<rparr>) (jobs s) \<rparr>)"

definition addLog :: "nat \<Rightarrow> string \<Rightarrow> string \<Rightarrow> storage \<Rightarrow> storage" where
  "addLog now level message s =
     s\<lparr> currentLogId := currentLogId s + 1,
        logs := map_set (currentLogId s)
          \<lparr> log_id = currentLogId s, log_level = level, log_message = message,
            log_timestamp = Some now \<rparr> (logs s) \<rparr>"

definition clearLogs :: "storage \<Rightarrow> storage" where
  "clearLogs s = s\<lparr> logs := [] \<rparr>"

section \<open>Endpoint discovery and the login attempt (server/routes.ts)\<close>

text \<open>
  The network is a parameter. A request either fails in transport (\<open>Inl\<close> with the
  message of the thrown error, timeouts included) or returns a response; reading the body of a
  response (\<^verbatim>\<open>response.text()\<close>) can fail in the same way.
\<close>

record httpResponse =
  resp_status :: nat
  resp_location :: "string option"
  resp_setCookie :: "string option"
  resp_text :: "string + string"

record network =
  net_head :: "string \<Rightarrow> string + nat"
  net_get :: "string \<Rightarrow> string + httpResponse"
  net_post :: "string \<Rightarrow> (string \<times> string) list \<Rightarrow> string \<Rightarrow> string + httpResponse"

text \<open>\<^verbatim>\<open>response.ok\<close>: a status in the range 200 to 299.\<close>

definition resp_ok :: "httpResponse \<Rightarrow> bool" where
  "resp_ok r = (200 \<le> resp_status r \<and> resp_status r \<le> 299)"

record validationResult =
  valid :: bool
  res_storeUrl :: "string option"
  res_error :: "string option"

definition commonDomains :: "string list" where
  "commonDomains = [''.mitiendanube.com'', ''.nuvemshop.com.br'', ''.nuvemshop.com.ar'',
     ''.nuvemshop.com.mx'', ''.nuvemshop.com.co'']"

text \<open>
  The loop of \<^verbatim>\<open>discoverTiendaNubeStore\<close>: the first candidate answering a HEAD request with
  status 200 wins; a candidate whose request fails or answers otherwise is skipped.
\<close>

fun discoverLoop :: "network \<Rightarrow> string \<Rightarrow> string list \<Rightarrow> string option" where
  "discoverLoop net username [] = None"
| "discoverLoop net username (domain # rest) =
     (let potentialUrl = ''https://'' @ username @ domain
      in case net_head net potentialUrl of
           Inr st \<Rightarrow> (if st = 200 then Some potentialUrl else discoverLoop net username rest)
         | Inl err \<Rightarrow> discoverLoop net username rest)"

text \<open>\<^verbatim>\<open>email.split('@')[0]\<close> is the text before the first \<open>@\<close>.\<close>

definition discoverTiendaNubeStore :: "network \<Rightarrow> string \<Rightarrow> string option" where
  "discoverTiendaNubeStore net email =
     discoverLoop net (takeWhile (\<lambda>c. c \<noteq> CHR ''@'') email) commonDomains"

definition successMarkers :: "string list" where
  "successMarkers = [''dashboard'', ''admin-panel'', ''Cerrar sesi'' @ [CHR 0xF3] @ ''n'',
     ''Log out'', ''Mi tienda'', ''Panel de control'']"

definition errorMarkers :: "string list" where
  "errorMarkers = [''contrase'' @ [CHR 0xF1] @ ''a incorrecta'', ''invalid'', ''error'',
     ''incorrecto'']"

definition redirectAccepted :: "string \<Rightarrow> bool" where
  "redirectAccepted location =
     (str_includes location ''/admin'' \<and>
      (str_includes location ''dashboard'' \<or> str_includes location ''home'' \<or>
       str_includes location ''panel'' \<or> \<not> str_includes location ''login''))"

text \<open>The classification of the login response, after both requests returned.\<close>

definition classifyLogin :: "string \<Rightarrow> nat \<Rightarrow> string \<Rightarrow> string \<Rightarrow> validationResult" where
  "classifyLogin storeUrl status location responseText =
     (if (status = 302 \<or> status = 301) \<and> redirectAccepted location
      then \<lparr> valid = True, res_storeUrl = Some storeUrl, res_error = None \<rparr>
      else if list_ex (str_includes responseText) successMarkers
      then \<lparr> valid = True, res_storeUrl = Some storeUrl, res_error = None \<rparr>
      else if list_ex (str_includes responseText) errorMarkers
      then \<lparr> valid = False, res_storeUrl = None, res_error = Some ''Credenciales incorrectas'' \<rparr>
      else \<lparr> valid = False, res_storeUrl = None,
             res_error = Some ''No se pudo verificar el acceso al dashboard'' \<rparr>)"

text \<open>
  The body of the \<^verbatim>\<open>try\<close> block of \<^verbatim>\<open>validateTiendaNubeAccount\<close>; \<open>Inl msg\<close> is a thrown
  error. The function \<open>csrf\<close> stands for the chain of ten token patterns: it maps the login
  page to the first capture of the first pattern that matches, or to the empty string.
\<close>

definition resolveEndpoint :: "network \<Rightarrow> string \<Rightarrow> string option \<Rightarrow> string option" where
  "resolveEndpoint net email storeUrl =
     (if truthy storeUrl then storeUrl else discoverTiendaNubeStore net email)"

definition loginForm :: "(string \<Rightarrow> string) \<Rightarrow> string \<Rightarrow> string \<Rightarrow> string \<Rightarrow> (string \<times> string) list" where
  "loginForm csrf email password loginPageHtml =
     (let csrfToken = csrf loginPageHtml
      in [(''email'', email), (''password'', password)] @
         (if csrfToken \<noteq> []
          then [(''authenticity_token'', csrfToken), (''_token'', csrfToken)]
          else []))"

text \<open>\<^verbatim>\<open>headers.get(name) || ''\<close>.\<close>

definition header_or_empty :: "string option \<Rightarrow> string" where
  "header_or_empty h = (if truthy h then the h else [])"

definition tryValidate ::
  "(string \<Rightarrow> string) \<Rightarrow> network \<Rightarrow> string \<Rightarrow> string \<Rightarrow> string option
     \<Rightarrow> string + validationResult" where
  "tryValidate csrf net email password storeUrl =
     (case resolveEndpoint net email storeUrl of
        None \<Rightarrow> Inr \<lparr> valid = False, res_storeUrl = None,
                 res_error = Some (''No se encontr'' @ [CHR 0xF3] @ '' tienda asociada al email'') \<rparr>
      | Some url \<Rightarrow>
          (let loginPageUrl = url @ ''/admin/login''
           in case net_get net loginPageUrl of
                Inl err \<Rightarrow> Inl err
              | Inr page \<Rightarrow>
                  if \<not> resp_ok page
                  then Inr \<lparr> valid = False, res_storeUrl = None,
                      res_error = Some (''No se pudo acceder a la p'' @ [CHR 0xE1] @ ''gina de login'') \<rparr>
                  else (case resp_text page of
                      Inl err \<Rightarrow> Inl err
                    | Inr loginPageHtml \<Rightarrow>
                        (case net_post net loginPageUrl
                                (loginForm csrf email password loginPageHtml)
                                (header_or_empty (resp_setCookie page)) of
                           Inl err \<Rightarrow> Inl err
                         | Inr resp \<Rightarrow>
                             (case resp_text resp of
                                Inl err \<Rightarrow> Inl err
                              | Inr responseText \<Rightarrow>
                                  Inr (classifyLogin url (resp_status resp)
                                    (header_or_empty (resp_location resp)) responseText))))))"

text \<open>The \<^verbatim>\<open>catch\<close> of \<^verbatim>\<open>validateTiendaNubeAccount\<close> turns every thrown error into a result.\<close>

definition validateTiendaNubeAccount ::
  "(string \<Rightarrow> string) \<Rightarrow> network \<Rightarrow> string \<Rightarrow> string \<Rightarrow> string option
     \<Rightarrow> validationResult" where
  "validateTiendaNubeAccount csrf net email password storeUrl =
     (case tryValidate csrf net email password storeUrl of
        Inl msg \<Rightarrow> \<lparr> valid = False, res_storeUrl = None,
                    res_error = Some (''Error de conexi'' @ [CHR 0xF3] @ ''n: '' @ msg) \<rparr>
      | Inr r \<Rightarrow> r)"

section \<open>The batch callback of processValidationQueue\<close>

record queueItem =
  q_id :: nat
  q_email :: string
  q_password :: string

text \<open>
  The first half of the callback runs when the batch is taken: it logs the attempt and reads
  the stored endpoint of the account (\<^verbatim>\<open>fullAccount?.storeUrl || undefined\<close>).
\<close>

definition lookupStoreUrl :: "storage \<Rightarrow> queueItem \<Rightarrow> string option" where
  "lookupStoreUrl s item =
     (case find (\<lambda>a. acc_id a = q_id item) (getAllAccounts s) of
        None \<Rightarrow> None
      | Some fullAccount \<Rightarrow> or_else (acc_storeUrl fullAccount) None)"

text \<open>
  The second half runs when the attempt has returned: a valid result stores status
  \<^verbatim>\<open>valid\<close> with the endpoint, any other result stores status \<^verbatim>\<open>invalid\<close> with the result's
  error text. The store never throws and \<^verbatim>\<open>validateTiendaNubeAccount\<close> catches every error,
  so the callback's own \<^verbatim>\<open>catch\<close> (status \<^verbatim>\<open>error\<close>, text \<^verbatim>\<open>Error interno\<close>) has no
  transition here.
\<close>

definition recordResult :: "nat \<Rightarrow> queueItem \<Rightarrow> validationResult \<Rightarrow> storage \<Rightarrow> storage" where
  "recordResult now item result s =
     (if valid result
      then addLog now ''success'' (''Login exitoso para '' @ q_email item)
             (updateAccountStatus now (q_id item) ''valid'' (res_storeUrl result) None s)
      else addLog now ''error''
             ((case res_error result of None \<Rightarrow> ''undefined'' | Some e \<Rightarrow> e)
                @ '' para '' @ q_email item)
             (updateAccountStatus now (q_id item) ''invalid'' None (res_error result) s))"

definition attemptAccount ::
  "(string \<Rightarrow> string) \<Rightarrow> network \<Rightarrow> nat \<Rightarrow> queueItem \<times> string option \<Rightarrow> storage \<Rightarrow> storage" where
  "attemptAccount csrf net now it s =
     recordResult now (fst it)
       (validateTiendaNubeAccount csrf net (q_email (fst it)) (q_password (fst it)) (snd it)) s"

section \<open>The account file parser (server/routes.ts)\<close>

text \<open>
  White space as \<^verbatim>\<open>trim\<close> and \<^verbatim>\<open>\s\<close> see it, among the code units below 256: TAB, LF, VT,
  FF, CR, SPACE and NBSP.
\<close>

definition isSpace :: "char \<Rightarrow> bool" where
  "isSpace c = (c = CHR 0x09 \<or> c = CHR 0x0A \<or> c = CHR 0x0B \<or> c = CHR 0x0C \<or> c = CHR 0x0D
                \<or> c = CHR 0x20 \<or> c = CHR 0xA0)"

definition trim :: "string \<Rightarrow> string" where
  "trim s = rev (dropWhile isSpace (rev (dropWhile isSpace s)))"

text \<open>\<^verbatim>\<open>s.split(sep)\<close> for a separator of one character.\<close>

fun splitOn :: "char \<Rightarrow> string \<Rightarrow> string list" where
  "splitOn sep [] = [[]]"
| "splitOn sep (c # cs) =
     (if c = sep then [] # splitOn sep cs
      else (case splitOn sep cs of [] \<Rightarrow> [[c]] | p # ps \<Rightarrow> (c # p) # ps))"

definition isLetter :: "char \<Rightarrow> bool" where
  "isLetter c = ((CHR ''a'' \<le> c \<and> c \<le> CHR ''z'') \<or> (CHR ''A'' \<le> c \<and> c \<le> CHR ''Z''))"

definition isDigit :: "char \<Rightarrow> bool" where
  "isDigit c = (CHR ''0'' \<le> c \<and> c \<le> CHR ''9'')"

text \<open>Case folding of the \<^verbatim>\<open>i\<close> flag: only the letters A to Z fold onto ASCII letters.\<close>

definition lower :: "char \<Rightarrow> char" where
  "lower c = (if CHR ''A'' \<le> c \<and> c \<le> CHR ''Z'' then char_of (of_char c + (32::nat)) else c)"

text \<open>The class \<^verbatim>\<open>[a-zA-Z0-9-]\<close> of the endpoint pattern.\<close>

definition isHostChar :: "char \<Rightarrow> bool" where
  "isHostChar c = (isLetter c \<or> isDigit c \<or> c = CHR ''-'')"

definition urlSuffixes :: "string list" where
  "urlSuffixes = [''mitiendanube.com'', ''nuvemshop.com.br'', ''nuvemshop.com.ar'',
     ''nuvemshop.com.mx'', ''nuvemshop.com.co'']"

text \<open>
  The endpoint pattern \<^verbatim>\<open>tiendaNubeUrlRegex\<close> tried at the start of \<open>s\<close>; the result is the
  length of the match. The host class excludes the dot, so the run of host characters is
  taken whole, and the first alternative that fits ends the match.
\<close>

definition urlHostMatch :: "nat \<Rightarrow> string \<Rightarrow> nat option" where
  "urlHostMatch n s =
     (let rest = drop n s; host = takeWhile isHostChar rest
      in if host = [] then None
         else (case dropWhile isHostChar rest of
                 [] \<Rightarrow> None
               | c # after \<Rightarrow>
                   if c \<noteq> CHR ''.'' then None
                   else (case find (\<lambda>alt. prefix alt (map lower after)) urlSuffixes of
                           None \<Rightarrow> None
                         | Some alt \<Rightarrow> Some (n + length host + 1 + length alt))))"

definition urlMatchAt :: "string \<Rightarrow> nat option" where
  "urlMatchAt s =
     (if prefix ''https://'' (map lower s) then urlHostMatch 8 s
      else if prefix ''http://'' (map lower s) then urlHostMatch 7 s
      else None)"

text \<open>\<^verbatim>\<open>line.match(tiendaNubeUrlRegex)[0]\<close>: the leftmost match, if any.\<close>

fun findUrl :: "string \<Rightarrow> string option" where
  "findUrl [] = None"
| "findUrl (c # cs) =
     (case urlMatchAt (c # cs) of Some n \<Rightarrow> Some (take n (c # cs)) | None \<Rightarrow> findUrl cs)"

text \<open>
  \<^verbatim>\<open>line.replace(tiendaNubeUrlRegex, '')\<close> with the \<^verbatim>\<open>g\<close> flag: every match is removed,
  scanning from the left; the first argument counts the characters of a match still to skip.
\<close>

fun removeUrlsFrom :: "nat \<Rightarrow> string \<Rightarrow> string" where
  "removeUrlsFrom k [] = []"
| "removeUrlsFrom (Suc k) (c # cs) = removeUrlsFrom k cs"
| "removeUrlsFrom 0 (c # cs) =
     (case urlMatchAt (c # cs) of
        Some n \<Rightarrow> removeUrlsFrom (n - 1) cs
      | None \<Rightarrow> c # removeUrlsFrom 0 cs)"

text \<open>\<^verbatim>\<open>.replace(/\/$/, '')\<close>\<close>

definition stripTrailingSlash :: "string \<Rightarrow> string" where
  "stripTrailingSlash s = (if s \<noteq> [] \<and> last s = CHR ''/'' then butlast s else s)"

definition separators :: "char list" where
  "separators = [CHR '':'', CHR ''|'', CHR '' '', CHR '','', CHR 0x09]"

text \<open>\<^verbatim>\<open>cleanLine.split(sep).map(p => p.trim()).filter(p => p)\<close>\<close>

definition pieces :: "char \<Rightarrow> string \<Rightarrow> string list" where
  "pieces sep cleanLine = filter (\<lambda>p. p \<noteq> []) (map trim (splitOn sep cleanLine))"

text \<open>The choice of email and password among the pieces; an empty string is "not found".\<close>

definition pickPair :: "string list \<Rightarrow> string \<times> string" where
  "pickPair parts =
     (case find (\<lambda>p. str_includes p ''@'') parts of
        None \<Rightarrow> ([], [])
      | Some emailPart \<Rightarrow>
          (case find (\<lambda>p. p \<noteq> emailPart \<and> \<not> str_includes p ''http''
                          \<and> \<not> str_includes p ''.com'') parts of
             None \<Rightarrow> (emailPart, [])
           | Some passwordPart \<Rightarrow> (emailPart, passwordPart)))"

text \<open>The loop over the separators; the \<^verbatim>\<open>break\<close> sits inside the test for two pieces.\<close>

fun separatorLoop :: "char list \<Rightarrow> string \<Rightarrow> string \<times> string" where
  "separatorLoop [] cleanLine = ([], [])"
| "separatorLoop (sep # rest) cleanLine =
     (if str_includes cleanLine [sep]
      then (let parts = pieces sep cleanLine
            in if length parts \<ge> 2 then pickPair parts else separatorLoop rest cleanLine)
      else separatorLoop rest cleanLine)"

text \<open>The classes \<^verbatim>\<open>[a-zA-Z0-9._%+-]\<close> and \<^verbatim>\<open>[a-zA-Z0-9.-]\<close> of the email pattern.\<close>

definition isLocalChar :: "char \<Rightarrow> bool" where
  "isLocalChar c = (isLetter c \<or> isDigit c \<or> c = CHR ''.'' \<or> c = CHR ''_'' \<or> c = CHR ''%''
                    \<or> c = CHR ''+'' \<or> c = CHR ''-'')"

definition isDomainChar :: "char \<Rightarrow> bool" where
  "isDomainChar c = (isLetter c \<or> isDigit c \<or> c = CHR ''.'' \<or> c = CHR ''-'')"

text \<open>
  Within the run \<open>d\<close> of domain characters the greedy domain part gives back characters
  until a dot followed by two letters is found: the last position \<open>k \<ge> 1\<close> of such a dot.
\<close>

definition domainSplit :: "string \<Rightarrow> nat option" where
  "domainSplit d =
     find (\<lambda>k. d ! k = CHR ''.'' \<and> isLetter (d ! (k + 1)) \<and> isLetter (d ! (k + 2)))
          (rev [1 ..< length d - 2])"

text \<open>
  The email pattern tried at the start of \<open>s\<close>; the result is the matched text. The local
  class excludes \<open>@\<close>, so the run of local characters is taken whole.
\<close>

definition emailMatchAt :: "string \<Rightarrow> string option" where
  "emailMatchAt s =
     (let local = takeWhile isLocalChar s
      in if local = [] then None
         else (case dropWhile isLocalChar s of
                 [] \<Rightarrow> None
               | c # after \<Rightarrow>
                   if c \<noteq> CHR ''@'' then None
                   else (let d = takeWhile isDomainChar after
                         in case domainSplit d of
                              None \<Rightarrow> None
                            | Some k \<Rightarrow> Some (local @ ''@'' @ take k d @ ''.''
                                              @ takeWhile isLetter (drop (Suc k) d)))))"

fun findEmail :: "string \<Rightarrow> string option" where
  "findEmail [] = None"
| "findEmail (c # cs) =
     (case emailMatchAt (c # cs) of Some m \<Rightarrow> Some m | None \<Rightarrow> findEmail cs)"

text \<open>\<^verbatim>\<open>s.replace(pat, '')\<close> for a string \<open>pat\<close>: the first occurrence is removed.\<close>

fun removeFirst :: "string \<Rightarrow> string \<Rightarrow> string" where
  "removeFirst pat [] = []"
| "removeFirst pat (c # cs) =
     (if prefix pat (c # cs) then drop (length pat) (c # cs) else c # removeFirst pat cs)"

text \<open>
  The two recovery steps on the cleaned line: the separator loop, then, when email or
  password is still empty, the email pattern with the first token of the remainder
  (\<^verbatim>\<open>.trim().split(/\s+/)[0] || ''\<close>).
\<close>

definition recoverPair :: "string \<Rightarrow> string \<times> string" where
  "recoverPair cleanLine =
     (let (email, password) = separatorLoop separators cleanLine
      in if email = [] \<or> password = []
         then (case findEmail cleanLine of
                 None \<Rightarrow> (email, password)
               | Some m \<Rightarrow> (m, takeWhile (\<lambda>c. \<not> isSpace c) (trim (removeFirst m cleanLine))))
         else (email, password))"

record parsedAccount =
  p_email :: string
  p_password :: string
  p_storeUrl :: "string option"

definition cleanLineOf :: "string \<Rightarrow> string" where
  "cleanLineOf line = trim (removeUrlsFrom 0 line)"

text \<open>The body of the loop over the lines: the record the line contributes, if any.\<close>

definition parseLine :: "string \<Rightarrow> parsedAccount option" where
  "parseLine line =
     (let storeUrl = (case findUrl line of None \<Rightarrow> [] | Some u \<Rightarrow> stripTrailingSlash u);
          (email, password) = recoverPair (cleanLineOf line)
      in if email \<noteq> [] \<and> password \<noteq> [] \<and> str_includes email ''@''
         then Some \<lparr> p_email = email, p_password = password,
                     p_storeUrl = (if storeUrl \<noteq> [] then Some storeUrl else None) \<rparr>
         else None)"

fun parseLines :: "string list \<Rightarrow> parsedAccount list \<Rightarrow> parsedAccount list" where
  "parseLines [] accs = accs"
| "parseLines (line # rest) accs =
     parseLines rest (case parseLine line of None \<Rightarrow> accs | Some a \<Rightarrow> accs @ [a])"

definition nonBlankLines :: "string \<Rightarrow> string list" where
  "nonBlankLines content = filter (\<lambda>line. trim line \<noteq> []) (splitOn CHR 0x0A content)"

definition parseAccountFile :: "string \<Rightarrow> parsedAccount list" where
  "parseAccountFile content = parseLines (nonBlankLines content) []"

text \<open>
  A transport failure with message \<open>msg\<close> during the attempt against \<open>url\<close>: the GET of the
  login page fails, or reading its body fails, or the POST fails, or reading its body fails.
\<close>

definition transportFailure ::
  "(string \<Rightarrow> string) \<Rightarrow> network \<Rightarrow> string \<Rightarrow> string \<Rightarrow> string \<Rightarrow> string \<Rightarrow> bool" where
  "transportFailure csrf net email password url msg =
     (case net_get net (url @ ''/admin/login'') of
        Inl err \<Rightarrow> err = msg
      | Inr page \<Rightarrow> resp_ok page \<and>
          (case resp_text page of
             Inl err \<Rightarrow> err = msg
           | Inr loginPageHtml \<Rightarrow>
               (case net_post net (url @ ''/admin/login'')
                       (loginForm csrf email password loginPageHtml)
                       (header_or_empty (resp_setCookie page)) of
                  Inl err \<Rightarrow> err = msg
                | Inr resp \<Rightarrow> resp_text resp = Inl msg)))"

section \<open>The scheduler and the job controls (server/routes.ts)\<close>

text \<open>
  The store resolves every promise without waiting for I/O, so a request handler, and each
  stretch of \<^verbatim>\<open>processValidationQueue\<close> between two network waits, runs without another
  handler in between. The state of the server is the store, the three module variables,
  the drain cycle that waits for its attempts (the job it read and the batch members whose
  attempt has not returned yet), and the number of pending \<^verbatim>\<open>setTimeout\<close> callbacks.
  All \<^verbatim>\<open>new Date()\<close> calls of one such stretch read the same \<open>now\<close>. Messages broadcast to
  WebSocket clients are not part of the state.
\<close>

record server =
  store :: storage
  validationQueue :: "queueItem list"
  isValidating :: bool
  validationSettings :: settings
  inflight :: "(validationJob \<times> (queueItem \<times> string option) list) option"
  timers :: nat

definition initialServer :: server where
  "initialServer = \<lparr> store = emptyStorage, validationQueue = [], isValidating = False,
     validationSettings = \<lparr> concurrentThreads = 10, timeoutSeconds = 30, retries = 3 \<rparr>,
     inflight = None, timers = 0 \<rparr>"

text \<open>What a handler answers: a status with a message, the started job, or the stored files.\<close>

datatype reply = Reply nat string | JobReply validationJob string | FilesReply "uploadedFile list"

text \<open>
  The end of a drain cycle, after \<^verbatim>\<open>Promise.all\<close>: the counters are recomputed over all
  stored accounts and written to the job read at the start of the cycle; then the current
  job is read again and the cycle is rescheduled, or the job is marked completed.
\<close>

definition finishCycle :: "nat \<Rightarrow> validationJob \<Rightarrow> server \<Rightarrow> server" where
  "finishCycle now currentJob sv =
     (let allAccounts = getAllAccounts (store sv);
          nProcessed = length (filter (\<lambda>a. acc_status a \<noteq> ''pending'') allAccounts);
          nValid = length (filter (\<lambda>a. acc_status a = ''valid'') allAccounts);
          nInvalid = length (filter (\<lambda>a. acc_status a = ''invalid'') allAccounts);
          nErrors = length (filter (\<lambda>a. acc_status a = ''error'') allAccounts);
          st1 = updateJobProgress (job_id currentJob) nProcessed nValid nInvalid nErrors (store sv);
          sv1 = sv\<lparr> store := st1, isValidating := False \<rparr>
      in case getCurrentJob st1 of
           None \<Rightarrow> sv1
         | Some updatedJob \<Rightarrow>
             if job_status updatedJob = ''running'' \<and> validationQueue sv1 \<noteq> []
             then sv1\<lparr> timers := timers sv1 + 1 \<rparr>
             else if validationQueue sv1 = []
             then sv1\<lparr> store := updateJobStatus now (job_id updatedJob) ''completed'' st1 \<rparr>
             else sv1)"

text \<open>
  The start of a drain cycle, up to the point where the attempts of the batch wait for the
  network. An empty batch has nothing to wait for and ends the cycle at once.
\<close>

definition processValidationQueue :: "nat \<Rightarrow> server \<Rightarrow> server" where
  "processValidationQueue now sv =
     (if isValidating sv \<or> validationQueue sv = [] then sv
      else case getCurrentJob (store sv) of
             None \<Rightarrow> sv\<lparr> isValidating := False \<rparr>
           | Some currentJob \<Rightarrow>
               if job_status currentJob \<noteq> ''running'' then sv\<lparr> isValidating := False \<rparr>
               else
                 (let batchSize = min (concurrentThreads (validationSettings sv))
                                      (length (validationQueue sv));
                      batch = take batchSize (validationQueue sv);
                      st1 = fold (\<lambda>a. addLog now ''info'' (''Validando '' @ q_email a @ ''...''))
                              batch (store sv);
                      items = map (\<lambda>a. (a, lookupStoreUrl st1 a)) batch;
                      sv1 = sv\<lparr> store := st1, isValidating := True,
                                validationQueue := drop batchSize (validationQueue sv) \<rparr>
                  in if items = [] then finishCycle now currentJob sv1
                     else sv1\<lparr> inflight := Some (currentJob, items) \<rparr>))"

text \<open>
  The attempt of the \<open>k\<close>-th waiting member of the batch returns: its result is recorded, and
  when it was the last one the cycle ends in the same stretch.
\<close>

definition attemptReturns :: "(string \<Rightarrow> string) \<Rightarrow> network \<Rightarrow> nat \<Rightarrow> nat \<Rightarrow> server \<Rightarrow> server" where
  "attemptReturns csrf net now k sv =
     (case inflight sv of
        None \<Rightarrow> sv
      | Some (currentJob, items) \<Rightarrow>
          if k < length items
          then (let st1 = attemptAccount csrf net now (items ! k) (store sv);
                    rest = take k items @ drop (Suc k) items
                in if rest = []
                   then finishCycle now currentJob (sv\<lparr> store := st1, inflight := None \<rparr>)
                   else sv\<lparr> store := st1, inflight := Some (currentJob, rest) \<rparr>)
          else sv)"

text \<open>A pending \<^verbatim>\<open>setTimeout(processValidationQueue, 1000)\<close> fires.\<close>

definition timerFires :: "nat \<Rightarrow> server \<Rightarrow> server" where
  "timerFires now sv =
     (if timers sv = 0 then sv else processValidationQueue now (sv\<lparr> timers := timers sv - 1 \<rparr>))"

text \<open>
  The request body of the start route holds optional integers;
  \<^verbatim>\<open>validationSettingsSchema.parse\<close> fills in defaults and throws outside the bounds.
\<close>

record settingsBody =
  b_concurrentThreads :: "int option"
  b_timeoutSeconds :: "int option"
  b_retries :: "int option"

definition parseField :: "int \<Rightarrow> int \<Rightarrow> nat \<Rightarrow> int option \<Rightarrow> nat option" where
  "parseField lo hi dflt v =
     (case v of None \<Rightarrow> Some dflt
      | Some n \<Rightarrow> if lo \<le> n \<and> n \<le> hi then Some (nat n) else None)"

definition validationSettingsSchema_parse :: "settingsBody \<Rightarrow> settings option" where
  "validationSettingsSchema_parse body =
     (case parseField 1 100 10 (b_concurrentThreads body) of
        None \<Rightarrow> None
      | Some ct \<Rightarrow>
          (case parseField 5 120 30 (b_timeoutSeconds body) of
             None \<Rightarrow> None
           | Some ts \<Rightarrow>
               (case parseField 0 10 3 (b_retries body) of
                  None \<Rightarrow> None
                | Some r \<Rightarrow> Some \<lparr> concurrentThreads = ct, timeoutSeconds = ts, retries = r \<rparr>)))"

text \<open>Decimal digits of a number, as a template literal prints it.\<close>

function show_nat :: "nat \<Rightarrow> string" where
  "show_nat n = (if n < 10 then [char_of (48 + n)]
                 else show_nat (n div 10) @ [char_of (48 + n mod 10)])"
  by pat_completeness auto
termination
  by (relation "measure (\<lambda>n. n)") auto

declare show_nat.simps [simp del]

text \<open>POST /api/validation/start\<close>

definition startValidation :: "nat \<Rightarrow> settingsBody \<Rightarrow> server \<Rightarrow> reply \<times> server" where
  "startValidation now body sv =
     (case validationSettingsSchema_parse body of
        None \<Rightarrow> (Reply 500 (''Error iniciando validaci'' @ [CHR 0xF3] @ ''n''), sv)
      | Some settings \<Rightarrow>
          (let sv1 = sv\<lparr> validationSettings := settings \<rparr>;
               allAccounts = getAllAccounts (store sv1);
               pendingAccounts = filter (\<lambda>a. acc_status a = ''pending'') allAccounts
           in if length pendingAccounts = 0
              then (Reply 400 ''No hay cuentas pendientes para validar'', sv1)
              else
                (let (job, st1) = createValidationJob
                        \<lparr> ij_status = ''running'', ij_settings = settings,
                          ij_totalAccounts = length pendingAccounts,
                          ij_processedAccounts = 0, ij_validAccounts = 0,
                          ij_invalidAccounts = 0, ij_errorAccounts = 0 \<rparr> (store sv1);
                     st2 = updateJobStatus now (job_id job) ''running'' st1;
                     queue = map (\<lambda>a. \<lparr> q_id = acc_id a, q_email = acc_email a,
                                           q_password = acc_password a \<rparr>) pendingAccounts;
                     st3 = addLog now ''info''
                             (''Iniciando validaci'' @ [CHR 0xF3] @ ''n de ''
                                @ show_nat (length pendingAccounts) @ '' cuentas con ''
                                @ show_nat (concurrentThreads settings) @ '' hilos'') st2;
                     sv2 = processValidationQueue now
                             (sv1\<lparr> store := st3, validationQueue := queue \<rparr>)
                 in (JobReply job (''Validaci'' @ [CHR 0xF3] @ ''n iniciada''), sv2))))"

text \<open>POST /api/validation/pause\<close>

definition pauseValidation :: "nat \<Rightarrow> server \<Rightarrow> reply \<times> server" where
  "pauseValidation now sv =
     (case getCurrentJob (store sv) of
        None \<Rightarrow> (Reply 400 (''No hay validaci'' @ [CHR 0xF3] @ ''n en curso''), sv)
      | Some currentJob \<Rightarrow>
          if job_status currentJob = ''running''
          then (Reply 200 (''Validaci'' @ [CHR 0xF3] @ ''n pausada''),
                sv\<lparr> store := addLog now ''warn''
                         (''Validaci'' @ [CHR 0xF3] @ ''n pausada por el usuario'')
                         (updateJobStatus now (job_id currentJob) ''paused'' (store sv)) \<rparr>)
          else (Reply 400 (''No hay validaci'' @ [CHR 0xF3] @ ''n en curso''), sv))"

text \<open>POST /api/validation/resume\<close>

definition resumeValidation :: "nat \<Rightarrow> server \<Rightarrow> reply \<times> server" where
  "resumeValidation now sv =
     (case getCurrentJob (store sv) of
        None \<Rightarrow> (Reply 400 (''No hay validaci'' @ [CHR 0xF3] @ ''n pausada''), sv)
      | Some currentJob \<Rightarrow>
          if job_status currentJob = ''paused''
          then (Reply 200 (''Validaci'' @ [CHR 0xF3] @ ''n reanudada''),
                processValidationQueue now
                  (sv\<lparr> store := addLog now ''info'' (''Validaci'' @ [CHR 0xF3] @ ''n reanudada'')
                           (updateJobStatus now (job_id currentJob) ''running'' (store sv)) \<rparr>))
          else (Reply 400 (''No hay validaci'' @ [CHR 0xF3] @ ''n pausada''), sv))"

text \<open>POST /api/validation/stop\<close>

definition stopValidation :: "nat \<Rightarrow> server \<Rightarrow> reply \<times> server" where
  "stopValidation now sv =
     (case getCurrentJob (store sv) of
        None \<Rightarrow> (Reply 400 (''No hay validaci'' @ [CHR 0xF3] @ ''n activa''), sv)
      | Some currentJob \<Rightarrow>
          if job_status currentJob = ''running'' \<or> job_status currentJob = ''paused''
          then (Reply 200 (''Validaci'' @ [CHR 0xF3] @ ''n detenida''),
                sv\<lparr> store := addLog now ''warn''
                         (''Validaci'' @ [CHR 0xF3] @ ''n detenida por el usuario'')
                         (updateJobStatus now (job_id currentJob) ''stopped'' (store sv)),
                    validationQueue := [] \<rparr>)
          else (Reply 400 (''No hay validaci'' @ [CHR 0xF3] @ ''n activa''), sv))"

text \<open>POST /api/files/upload: files whose name does not end in \<^verbatim>\<open>.txt\<close> are skipped.\<close>

record uploadFile =
  u_originalname :: string
  u_size :: nat
  u_content :: string

fun uploadLoop :: "nat \<Rightarrow> uploadFile list \<Rightarrow> uploadedFile list \<Rightarrow> storage
                     \<Rightarrow> uploadedFile list \<times> storage" where
  "uploadLoop now [] uploadedFiles s = (uploadedFiles, s)"
| "uploadLoop now (file # rest) uploadedFiles s =
     (if \<not> suffix ''.txt'' (u_originalname file) then uploadLoop now rest uploadedFiles s
      else
        (let parsed = parseAccountFile (u_content file);
             (uploadedFile, s1) = createFile now (u_originalname file) (u_size file)
                                    (length parsed) ''processed'' s;
             accountsToInsert = map (\<lambda>a. \<lparr> ia_fileId = Some (file_id uploadedFile),
                                             ia_email = p_email a, ia_password = p_password a,
                                             ia_storeUrl = or_else (p_storeUrl a) None,
                                             ia_status = Some ''pending'',
                                             ia_errorMessage = None \<rparr>) parsed;
             (created, s2) = createAccountsBatch accountsToInsert s1;
             s3 = addLog now ''info''
                    (''Archivo '' @ u_originalname file @ '' procesado: ''
                       @ show_nat (length parsed) @ '' cuentas encontradas'') s2
         in uploadLoop now rest (uploadedFiles @ [uploadedFile]) s3))"

definition uploadFiles :: "nat \<Rightarrow> uploadFile list \<Rightarrow> server \<Rightarrow> reply \<times> server" where
  "uploadFiles now fs sv =
     (if fs = [] then (Reply 400 ''No files uploaded'', sv)
      else (let (uploadedFiles, s1) = uploadLoop now fs [] (store sv)
            in (FilesReply uploadedFiles, sv\<lparr> store := s1 \<rparr>)))"

text \<open>
  One stretch of the server's execution, and a run of such stretches; the clock advances
  by one between stretches.
\<close>

datatype event =
    Upload "uploadFile list"
  | DeleteFile nat
  | Start settingsBody
  | Pause
  | Resume
  | Stop
  | TimerFires
  | AttemptReturns nat network
  | ClearLogs

fun step :: "(string \<Rightarrow> string) \<Rightarrow> nat \<Rightarrow> event \<Rightarrow> server \<Rightarrow> server" where
  "step csrf now (Upload fs) sv = snd (uploadFiles now fs sv)"
| "step csrf now (DeleteFile i) sv = sv\<lparr> store := deleteFile i (store sv) \<rparr>"
| "step csrf now (Start body) sv = snd (startValidation now body sv)"
| "step csrf now Pause sv = snd (pauseValidation now sv)"
| "step csrf now Resume sv = snd (resumeValidation now sv)"
| "step csrf now Stop sv = snd (stopValidation now sv)"
| "step csrf now TimerFires sv = timerFires now sv"
| "step csrf now (AttemptReturns k net) sv = attemptReturns csrf net now k sv"
| "step csrf now ClearLogs sv = sv\<lparr> store := clearLogs (store sv) \<rparr>"

fun run :: "(string \<Rightarrow> string) \<Rightarrow> nat \<Rightarrow> event list \<Rightarrow> server \<Rightarrow> server" where
  "run csrf now [] sv = sv"
| "run csrf now (e # es) sv = run csrf (now + 1) es (step csrf now e sv)"

text \<open>What an observer of the jobs reads: id, status, total and the four counters.\<close>

definition jobView :: "server \<Rightarrow> (nat \<times> string \<times> nat \<times> nat \<times> nat \<times> nat \<times> nat) list" where
  "jobView sv = map (\<lambda>j. (job_id j, job_status j, job_totalAccounts j, job_processedAccounts j,
                            job_validAccounts j, job_invalidAccounts j, job_errorAccounts j))
                    (map_values (jobs (store sv)))"

definition accountView :: "storage \<Rightarrow> (nat \<times> string \<times> string option) list" where
  "accountView s = map (\<lambda>a. (acc_id a, acc_status a, acc_errorMessage a)) (getAllAccounts s)"

definition statusOf :: "storage \<Rightarrow> nat \<Rightarrow> string option" where
  "statusOf s i = map_option acc_status (map_of (accounts s) i)"

text \<open>The HTTP status of an answer; \<^verbatim>\<open>res.json\<close> without \<^verbatim>\<open>res.status\<close> answers 200.\<close>

fun replyStatus :: "reply \<Rightarrow> nat" where
  "replyStatus (Reply code msg) = code"
| "replyStatus (JobReply job msg) = 200"
| "replyStatus (FilesReply fs) = 200"

definition urlShaped :: "string \<Rightarrow> bool" where
  "urlShaped p = (str_includes p ''http'' \<or> str_includes p ''.com'')"

text \<open>
  The separator step in the words of the specification: the first separator present in the
  line is the only one used, whether or not it leaves two pieces.
\<close>

definition spec_separatorStep :: "string \<Rightarrow> string \<times> string" where
  "spec_separatorStep cleanLine =
     (case find (\<lambda>sep. str_includes cleanLine [sep]) separators of
        None \<Rightarrow> ([], [])
      | Some sep \<Rightarrow>
          (let parts = pieces sep cleanLine
           in if length parts \<ge> 2 then pickPair parts else ([], [])))"

text \<open>
  The account statuses the engine writes, and the relation between the counters of a job.
\<close>

definition knownStatus :: "account \<Rightarrow> bool" where
  "knownStatus a = (acc_status a = ''pending'' \<or> acc_status a = ''valid''
                    \<or> acc_status a = ''invalid'' \<or> acc_status a = ''error'')"

definition countersAddUp :: "validationJob \<Rightarrow> bool" where
  "countersAddUp j = (job_processedAccounts j
                        = job_validAccounts j + job_invalidAccounts j + job_errorAccounts j)"

definition storeOK :: "storage \<Rightarrow> bool" where
  "storeOK s = (list_all knownStatus (getAllAccounts s) \<and> list_all countersAddUp (map_values (jobs s)))"

section \<open>Example inputs\<close>

text \<open>
  The token extraction used in the examples: no token. None of the token patterns occurs in
  the example login page below, and the other example networks never deliver a login page.
\<close>

definition noCsrf :: "string \<Rightarrow> string" where
  "noCsrf html = []"

definition defaultBody :: settingsBody where
  "defaultBody = \<lparr> b_concurrentThreads = None, b_timeoutSeconds = None, b_retries = None \<rparr>"

text \<open>A network on which every request fails with a timeout.\<close>

definition netDown :: network where
  "netDown = \<lparr> net_head = (\<lambda>url. Inl ''timeout''), net_get = (\<lambda>url. Inl ''timeout''),
               net_post = (\<lambda>url form cookies. Inl ''timeout'') \<rparr>"

text \<open>A network on which no candidate store answers with status 200.\<close>

definition netNoStore :: network where
  "netNoStore = \<lparr> net_head = (\<lambda>url. Inr 404), net_get = (\<lambda>url. Inl ''unreachable''),
                  net_post = (\<lambda>url form cookies. Inl ''unreachable'') \<rparr>"

text \<open>
  A network whose login page loads and whose login POST answers 302 with a Location that
  holds \<^verbatim>\<open>/admin\<close>, \<^verbatim>\<open>login\<close> and \<^verbatim>\<open>home\<close>, and an empty body.
\<close>

definition loginPage :: httpResponse where
  "loginPage = \<lparr> resp_status = 200, resp_location = None, resp_setCookie = None,
                 resp_text = Inr ''<form></form>'' \<rparr>"

definition redirectToLogin :: httpResponse where
  "redirectToLogin = \<lparr> resp_status = 302, resp_location = Some ''/admin/login?next=home'',
                       resp_setCookie = None, resp_text = Inr [] \<rparr>"

definition netRedirect :: network where
  "netRedirect = \<lparr> net_head = (\<lambda>url. Inr 200), net_get = (\<lambda>url. Inr loginPage),
                   net_post = (\<lambda>url form cookies. Inr redirectToLogin) \<rparr>"

definition acc1 :: account where
  "acc1 = \<lparr> acc_id = 1, acc_fileId = Some 1, acc_email = ''a@x.org'', acc_password = ''pw1'',
            acc_storeUrl = Some ''https://a.mitiendanube.com'', acc_status = ''pending'',
            acc_errorMessage = None, acc_validatedAt = None \<rparr>"

definition acc2 :: account where
  "acc2 = \<lparr> acc_id = 2, acc_fileId = Some 1, acc_email = ''b@x.org'', acc_password = ''pw2'',
            acc_storeUrl = None, acc_status = ''pending'',
            acc_errorMessage = None, acc_validatedAt = None \<rparr>"

definition twoAccounts :: storage where
  "twoAccounts = emptyStorage\<lparr> accounts := [(1, acc1), (2, acc2)], currentAccountId := 3 \<rparr>"

definition item1 :: queueItem where
  "item1 = \<lparr> q_id = 1, q_email = ''a@x.org'', q_password = ''pw1'' \<rparr>"

definition item2 :: queueItem where
  "item2 = \<lparr> q_id = 2, q_email = ''b@x.org'', q_password = ''pw2'' \<rparr>"

definition fileA :: uploadFile where
  "fileA = \<lparr> u_originalname = ''a.txt'', u_size = 11, u_content = ''a@x.org:pw1'' \<rparr>"

definition fileB :: uploadFile where
  "fileB = \<lparr> u_originalname = ''b.txt'', u_size = 11, u_content = ''b@x.org:pw2'' \<rparr>"

text \<open>The server after one upload, a start and a pause.\<close>

definition pausedServer :: server where
  "pausedServer = run noCsrf 0 [Upload [fileA], Start defaultBody, Pause] initialServer"

section \<open>Facts about the Map model\<close>

lemma map_of_map_set: "map_of (map_set k v m) k' = (if k' = k then Some v else map_of m k')"
  by (induction m) auto

lemma addLog_accounts: "accounts (addLog now l m s) = accounts s"
  by (simp add: addLog_def)

lemma updateAccountStatus_lookup:
  "map_of (accounts s) i = Some a \<Longrightarrow>
   map_of (accounts (updateAccountStatus now i st su em s)) i =
     Some (a\<lparr> acc_status := st, acc_storeUrl := or_else su (acc_storeUrl a),
              acc_errorMessage := or_else em (acc_errorMessage a), acc_validatedAt := Some now \<rparr>)"
  by (simp add: updateAccountStatus_def map_of_map_set)


section \<open>Account status updates\<close>

text \<open>
  C10. An update of a stored account stamps \<open>validatedAt\<close> with the time of the update and
  sets the status; a missing (or empty) \<open>storeUrl\<close> or \<open>errorMessage\<close> argument keeps the stored
  value, so a stored value is never cleared; id, fileId, email and password are unchanged.
\<close>

theorem updateAccountStatus_frame:
  assumes "map_of (accounts s) i = Some a"
  shows "\<exists>a'. map_of (accounts (updateAccountStatus now i st su em s)) i = Some a'
     \<and> acc_validatedAt a' = Some now
     \<and> acc_status a' = st
     \<and> (\<not> truthy su \<longrightarrow> acc_storeUrl a' = acc_storeUrl a)
     \<and> (\<not> truthy em \<longrightarrow> acc_errorMessage a' = acc_errorMessage a)
     \<and> (acc_storeUrl a \<noteq> None \<longrightarrow> acc_storeUrl a' \<noteq> None)
     \<and> (acc_errorMessage a \<noteq> None \<longrightarrow> acc_errorMessage a' \<noteq> None)
     \<and> acc_id a' = acc_id a \<and> acc_fileId a' = acc_fileId a
     \<and> acc_email a' = acc_email a \<and> acc_password a' = acc_password a"
  using assms
  by (cases su; cases em) (auto simp: updateAccountStatus_def map_of_map_set or_else_def)

text \<open>The update of account 1 of the example store, with an error text and no endpoint.\<close>

theorem updateAccountStatus_frame_witness:
  "map_of (accounts twoAccounts) 1 = Some acc1
   \<and> (\<exists>a'. map_of (accounts (updateAccountStatus 9 1 ''invalid'' None (Some ''x'') twoAccounts)) 1 = Some a'
        \<and> acc_validatedAt a' = Some 9 \<and> acc_status a' = ''invalid''
        \<and> acc_storeUrl a' = Some ''https://a.mitiendanube.com''
        \<and> acc_email a' = ''a@x.org'' \<and> acc_password a' = ''pw1'')"
proof -
  have h: "map_of (accounts twoAccounts) 1 = Some acc1"
    by (simp add: twoAccounts_def)
  from updateAccountStatus_frame [OF h, of 9 "''invalid''" None "Some ''x''"] h
  show ?thesis by (auto simp: acc1_def)
qed


section \<open>Transport failures of the login attempt\<close>

lemma tryValidate_transportFailure:
  "resolveEndpoint net email su = Some url \<Longrightarrow> transportFailure csrf net email password url msg
   \<Longrightarrow> tryValidate csrf net email password su = Inl msg"
  by (auto simp: tryValidate_def transportFailure_def split: sum.splits)

text \<open>
  C1, as the specification states it, fails: on a network where every request times out the
  stored account ends with status \<^verbatim>\<open>invalid\<close>, not \<^verbatim>\<open>error\<close>.
\<close>

theorem transport_failure_counterexample:
  "transportFailure noCsrf netDown ''a@x.org'' ''pw1'' ''https://a.mitiendanube.com'' ''timeout''
   \<and> statusOf (attemptAccount noCsrf netDown 5 (item1, Some ''https://a.mitiendanube.com'') twoAccounts) 1
       = Some ''invalid''
   \<and> statusOf (attemptAccount noCsrf netDown 5 (item1, Some ''https://a.mitiendanube.com'') twoAccounts) 1
       \<noteq> Some ''error''"
  by (simp add: transportFailure_def netDown_def statusOf_def attemptAccount_def
      validateTiendaNubeAccount_def tryValidate_def resolveEndpoint_def recordResult_def
      addLog_def updateAccountStatus_def twoAccounts_def item1_def)

text \<open>
  C1, amended. When the attempt of a stored account against its resolved endpoint suffers a
  transport failure with message \<open>msg\<close> in either request, the account ends with status
  \<^verbatim>\<open>invalid\<close>, the status of a rejection, and its error text is
  \<^verbatim>\<open>Error de conexion: \<close> (with o acute) followed by \<open>msg\<close>.
\<close>

theorem transport_failure_recorded:
  assumes "map_of (accounts s) (q_id item) = Some a"
    and "resolveEndpoint net (q_email item) su = Some url"
    and "transportFailure csrf net (q_email item) (q_password item) url msg"
  shows "\<exists>a'. map_of (accounts (attemptAccount csrf net now (item, su) s)) (q_id item) = Some a'
     \<and> acc_status a' = ''invalid'' \<and> acc_status a' \<noteq> ''error''
     \<and> acc_errorMessage a' = Some (''Error de conexi'' @ [CHR 0xF3] @ ''n: '' @ msg)"
  using assms
  by (simp add: attemptAccount_def validateTiendaNubeAccount_def recordResult_def
      tryValidate_transportFailure addLog_accounts updateAccountStatus_lookup or_else_def)

theorem transport_failure_recorded_witness:
  "map_of (accounts twoAccounts) (q_id item1) = Some acc1
   \<and> resolveEndpoint netDown (q_email item1) (Some ''https://a.mitiendanube.com'')
       = Some ''https://a.mitiendanube.com''
   \<and> transportFailure noCsrf netDown (q_email item1) (q_password item1)
        ''https://a.mitiendanube.com'' ''timeout''
   \<and> (\<exists>a'. map_of (accounts (attemptAccount noCsrf netDown 5
                (item1, Some ''https://a.mitiendanube.com'') twoAccounts)) (q_id item1) = Some a'
        \<and> acc_status a' = ''invalid'' \<and> acc_status a' \<noteq> ''error''
        \<and> acc_errorMessage a' = Some (''Error de conexi'' @ [CHR 0xF3] @ ''n: '' @ ''timeout''))"
proof -
  have h1: "map_of (accounts twoAccounts) (q_id item1) = Some acc1"
    by (simp add: twoAccounts_def item1_def)
  have h2: "resolveEndpoint netDown (q_email item1) (Some ''https://a.mitiendanube.com'')
       = Some ''https://a.mitiendanube.com''"
    by (simp add: resolveEndpoint_def)
  have h3: "transportFailure noCsrf netDown (q_email item1) (q_password item1)
        ''https://a.mitiendanube.com'' ''timeout''"
    by (simp add: transportFailure_def netDown_def)
  from transport_failure_recorded [OF h1 h2 h3, of 5] h1 h2 h3 show ?thesis by blast
qed


section \<open>Endpoint discovery without success\<close>

lemma discoverLoop_None:
  "discoverLoop net u ds = None \<longleftrightarrow> (\<forall>d \<in> set ds. net_head net (''https://'' @ u @ d) \<noteq> Inr 200)"
  by (induction ds) (auto simp: Let_def split: sum.splits)

text \<open>
  C8, as the specification states it, fails: when no candidate answers with status 200 the
  stored account without endpoint ends with status \<^verbatim>\<open>invalid\<close>.
\<close>

theorem undiscoverable_counterexample:
  "discoverTiendaNubeStore netNoStore ''b@x.org'' = None
   \<and> statusOf (attemptAccount noCsrf netNoStore 5 (item2, None) twoAccounts) 2 = Some ''invalid''"
  by (simp add: discoverTiendaNubeStore_def commonDomains_def netNoStore_def statusOf_def
      attemptAccount_def validateTiendaNubeAccount_def tryValidate_def resolveEndpoint_def
      recordResult_def addLog_def updateAccountStatus_def twoAccounts_def item2_def map_of_map_set)

text \<open>
  C8, amended. For a stored account without endpoint, when no candidate domain answers the
  HEAD request with status 200, the account ends with status \<^verbatim>\<open>invalid\<close> and its error
  text says that no store was found for the email.
\<close>

theorem undiscoverable_recorded:
  assumes "map_of (accounts s) (q_id item) = Some a"
    and "\<not> truthy su"
    and "\<forall>d \<in> set commonDomains.
           net_head net (''https://'' @ takeWhile (\<lambda>c. c \<noteq> CHR ''@'') (q_email item) @ d) \<noteq> Inr 200"
  shows "\<exists>a'. map_of (accounts (attemptAccount csrf net now (item, su) s)) (q_id item) = Some a'
     \<and> acc_status a' = ''invalid''
     \<and> acc_errorMessage a' = Some (''No se encontr'' @ [CHR 0xF3] @ '' tienda asociada al email'')"
proof -
  have "discoverTiendaNubeStore net (q_email item) = None"
    using assms(3) by (simp add: discoverTiendaNubeStore_def discoverLoop_None)
  then have "tryValidate csrf net (q_email item) (q_password item) su =
     Inr \<lparr> valid = False, res_storeUrl = None,
           res_error = Some (''No se encontr'' @ [CHR 0xF3] @ '' tienda asociada al email'') \<rparr>"
    using assms(2) by (simp add: tryValidate_def resolveEndpoint_def)
  then show ?thesis
    using assms(1)
    by (simp add: attemptAccount_def validateTiendaNubeAccount_def recordResult_def
        addLog_accounts updateAccountStatus_lookup or_else_def)
qed

theorem undiscoverable_recorded_witness:
  "map_of (accounts twoAccounts) (q_id item2) = Some acc2
   \<and> \<not> truthy None
   \<and> list_all (\<lambda>d. net_head netNoStore
         (''https://'' @ takeWhile (\<lambda>c. c \<noteq> CHR ''@'') (q_email item2) @ d) \<noteq> Inr 200)
        commonDomains
   \<and> (\<exists>a'. map_of (accounts (attemptAccount noCsrf netNoStore 5 (item2, None) twoAccounts))
               (q_id item2) = Some a'
        \<and> acc_status a' = ''invalid''
        \<and> acc_errorMessage a' = Some (''No se encontr'' @ [CHR 0xF3] @ '' tienda asociada al email''))"
proof -
  have h1: "map_of (accounts twoAccounts) (q_id item2) = Some acc2"
    by (simp add: twoAccounts_def item2_def)
  have h2: "\<not> truthy None" by simp
  have h3: "\<forall>d \<in> set commonDomains.
         net_head netNoStore (''https://'' @ takeWhile (\<lambda>c. c \<noteq> CHR ''@'') (q_email item2) @ d)
           \<noteq> Inr 200"
    by (simp add: netNoStore_def)
  from undiscoverable_recorded [OF h1 h2 h3, of noCsrf 5] h1 h2 h3 show ?thesis
    unfolding list_all_iff by blast
qed


section \<open>Classification of a redirect\<close>

text \<open>
  C7, as the specification states it, fails: a 302 answer whose Location holds \<^verbatim>\<open>/admin\<close>,
  \<^verbatim>\<open>login\<close> and \<^verbatim>\<open>home\<close> is accepted although the Location contains the login marker.
\<close>

theorem redirect_counterexample:
  "resp_status redirectToLogin = 302
   \<and> net_post netRedirect (''https://a.mitiendanube.com'' @ ''/admin/login'')
        (loginForm noCsrf ''a@x.org'' ''pw1'' ''<form></form>'') [] = Inr redirectToLogin
   \<and> valid (validateTiendaNubeAccount noCsrf netRedirect ''a@x.org'' ''pw1''
        (Some ''https://a.mitiendanube.com''))
   \<and> \<not> (str_includes (header_or_empty (resp_location redirectToLogin)) ''/admin''
        \<and> \<not> str_includes (header_or_empty (resp_location redirectToLogin)) ''login'')"
  by (simp add: validateTiendaNubeAccount_def tryValidate_def resolveEndpoint_def netRedirect_def
      loginPage_def redirectToLogin_def resp_ok_def header_or_empty_def classifyLogin_def
      redirectAccepted_def)

text \<open>
  C7, amended. When both requests return and the login answer has status 301 or 302, the
  attempt is accepted exactly when the Location contains \<^verbatim>\<open>/admin\<close> and either contains
  one of \<^verbatim>\<open>dashboard\<close>, \<^verbatim>\<open>home\<close>, \<^verbatim>\<open>panel\<close> or does not contain \<^verbatim>\<open>login\<close>, or the
  body contains one of the success markers. In particular a Location with \<^verbatim>\<open>/admin\<close> and
  without \<^verbatim>\<open>login\<close> is accepted.
\<close>

theorem redirect_classification:
  assumes "resolveEndpoint net email su = Some url"
    and "net_get net (url @ ''/admin/login'') = Inr page"
    and "resp_ok page" and "resp_text page = Inr html"
    and "net_post net (url @ ''/admin/login'') (loginForm csrf email password html)
           (header_or_empty (resp_setCookie page)) = Inr resp"
    and "resp_text resp = Inr body"
    and "resp_status resp = 301 \<or> resp_status resp = 302"
  shows "(valid (validateTiendaNubeAccount csrf net email password su) \<longleftrightarrow>
            redirectAccepted (header_or_empty (resp_location resp))
            \<or> list_ex (str_includes body) successMarkers)
     \<and> (str_includes (header_or_empty (resp_location resp)) ''/admin''
          \<and> \<not> str_includes (header_or_empty (resp_location resp)) ''login''
         \<longrightarrow> valid (validateTiendaNubeAccount csrf net email password su))"
  using assms
  by (auto simp: validateTiendaNubeAccount_def tryValidate_def classifyLogin_def redirectAccepted_def)

theorem redirect_classification_witness:
  "resp_status redirectToLogin = 302
   \<and> (valid (validateTiendaNubeAccount noCsrf netRedirect ''a@x.org'' ''pw1''
          (Some ''https://a.mitiendanube.com''))
       \<longleftrightarrow> redirectAccepted (header_or_empty (resp_location redirectToLogin))
           \<or> list_ex (str_includes []) successMarkers)
   \<and> redirectAccepted (header_or_empty (resp_location redirectToLogin))"
proof -
  have h1: "resolveEndpoint netRedirect ''a@x.org'' (Some ''https://a.mitiendanube.com'')
       = Some ''https://a.mitiendanube.com''"
    by (simp add: resolveEndpoint_def)
  have h2: "net_get netRedirect (''https://a.mitiendanube.com'' @ ''/admin/login'') = Inr loginPage"
    by (simp add: netRedirect_def)
  have h3: "resp_ok loginPage" by (simp add: resp_ok_def loginPage_def)
  have h4: "resp_text loginPage = Inr ''<form></form>''" by (simp add: loginPage_def)
  have h5: "net_post netRedirect (''https://a.mitiendanube.com'' @ ''/admin/login'')
      (loginForm noCsrf ''a@x.org'' ''pw1'' ''<form></form>'')
      (header_or_empty (resp_setCookie loginPage)) = Inr redirectToLogin"
    by (simp add: netRedirect_def)
  have h6: "resp_text redirectToLogin = Inr []" by (simp add: redirectToLogin_def)
  have h7: "resp_status redirectToLogin = 301 \<or> resp_status redirectToLogin = 302"
    by (simp add: redirectToLogin_def)
  have h8: "redirectAccepted (header_or_empty (resp_location redirectToLogin))"
    by (simp add: redirectToLogin_def header_or_empty_def redirectAccepted_def)
  have h9: "resp_status redirectToLogin = 302" by (simp add: redirectToLogin_def)
  from redirect_classification [OF h1 h2 h3 h4 h5 h6 h7] h8 h9 show ?thesis by blast
qed


section \<open>The parser\<close>

lemma parseLines_map_filter: "parseLines ls accs = accs @ List.map_filter parseLine ls"
  by (induction ls arbitrary: accs) (auto simp: List.map_filter_simps split: option.splits)

lemma parseLine_Some:
  "parseLine line = Some r \<Longrightarrow> p_email r \<noteq> [] \<and> str_includes (p_email r) ''@'' \<and> p_password r \<noteq> []"
  by (auto simp: parseLine_def Let_def split: prod.splits if_splits)

lemma parseLine_None_iff:
  "parseLine line = None \<longleftrightarrow>
     \<not> (fst (recoverPair (cleanLineOf line)) \<noteq> [] \<and> snd (recoverPair (cleanLineOf line)) \<noteq> []
        \<and> str_includes (fst (recoverPair (cleanLineOf line))) ''@'')"
  by (auto simp: parseLine_def Let_def split: prod.splits if_splits)

lemma parse_example_pair: "parseAccountFile ''user@store.com:secret123'' =
      [\<lparr> p_email = ''user@store.com'', p_password = ''secret123'', p_storeUrl = None \<rparr>]"
  by code_simp

lemma parse_example_none: "parseAccountFile ''not a valid line'' = []"
  by code_simp

text \<open>
  C5. The parser returns the records of the non-blank lines in line order, at most one per
  line; every record has a non-empty email containing \<open>@\<close> and a non-empty password; a line
  gives no record exactly when no such pair is recovered from it. The text
  \<^verbatim>\<open>user@store.com:secret123\<close> gives the one record with that email and password, and
  \<^verbatim>\<open>not a valid line\<close> gives none.
\<close>

theorem parser_records:
  "parseAccountFile content = List.map_filter parseLine (nonBlankLines content)
   \<and> length (parseAccountFile content) \<le> length (nonBlankLines content)
   \<and> (\<forall>r \<in> set (parseAccountFile content).
         p_email r \<noteq> [] \<and> str_includes (p_email r) ''@'' \<and> p_password r \<noteq> [])
   \<and> (\<forall>line. parseLine line = None \<longleftrightarrow>
         \<not> (fst (recoverPair (cleanLineOf line)) \<noteq> []
            \<and> snd (recoverPair (cleanLineOf line)) \<noteq> []
            \<and> str_includes (fst (recoverPair (cleanLineOf line))) ''@''))
   \<and> parseAccountFile ''user@store.com:secret123'' =
        [\<lparr> p_email = ''user@store.com'', p_password = ''secret123'', p_storeUrl = None \<rparr>]
   \<and> parseAccountFile ''not a valid line'' = []"
proof -
  have eq: "parseAccountFile content = List.map_filter parseLine (nonBlankLines content)"
    by (simp add: parseAccountFile_def parseLines_map_filter)
  have len: "length (parseAccountFile content) \<le> length (nonBlankLines content)"
    unfolding eq by (simp add: List.map_filter_def)
  have mem: "\<forall>r \<in> set (parseAccountFile content).
         p_email r \<noteq> [] \<and> str_includes (p_email r) ''@'' \<and> p_password r \<noteq> []"
  proof
    fix r assume "r \<in> set (parseAccountFile content)"
    then obtain line where "parseLine line = Some r"
      unfolding eq by (auto simp: List.map_filter_def)
    then show "p_email r \<noteq> [] \<and> str_includes (p_email r) ''@'' \<and> p_password r \<noteq> []"
      by (rule parseLine_Some)
  qed
  show ?thesis
    using eq len mem parseLine_None_iff parse_example_pair parse_example_none by blast
qed

theorem parser_records_witness:
  "parseAccountFile ''user@store.com:secret123'' =
      [\<lparr> p_email = ''user@store.com'', p_password = ''secret123'', p_storeUrl = None \<rparr>]
   \<and> \<lparr> p_email = ''user@store.com'', p_password = ''secret123'', p_storeUrl = None \<rparr>
        \<in> set (parseAccountFile ''user@store.com:secret123'')
   \<and> str_includes ''user@store.com'' ''@''
   \<and> length (parseAccountFile ''user@store.com:secret123'')
        \<le> length (nonBlankLines ''user@store.com:secret123'')"
proof -
  have eq: "parseAccountFile ''user@store.com:secret123'' =
      [\<lparr> p_email = ''user@store.com'', p_password = ''secret123'', p_storeUrl = None \<rparr>]"
    and len: "length (parseAccountFile ''user@store.com:secret123'')
        \<le> length (nonBlankLines ''user@store.com:secret123'')"
    and mem: "\<forall>r \<in> set (parseAccountFile ''user@store.com:secret123'').
         p_email r \<noteq> [] \<and> str_includes (p_email r) ''@'' \<and> p_password r \<noteq> []"
    using parser_records [of "''user@store.com:secret123''"] by blast+
  have "\<lparr> p_email = ''user@store.com'', p_password = ''secret123'', p_storeUrl = None \<rparr>
        \<in> set (parseAccountFile ''user@store.com:secret123'')"
    unfolding eq by simp
  with mem eq len show ?thesis by fastforce
qed

lemma separatorLoop_find:
  "separatorLoop seps cleanLine =
     (case find (\<lambda>sep. str_includes cleanLine [sep] \<and> 2 \<le> length (pieces sep cleanLine)) seps of
        None \<Rightarrow> ([], [])
      | Some sep \<Rightarrow> pickPair (pieces sep cleanLine))"
  by (induction seps) (auto simp: Let_def)

lemma pieces_nonempty: "p \<in> set (pieces sep cleanLine) \<Longrightarrow> p \<noteq> []"
  by (auto simp: pieces_def)

lemma pickPair_email:
  "pickPair parts = (e, p) \<Longrightarrow> e \<noteq> [] \<Longrightarrow>
     \<exists>i<length parts. parts ! i = e \<and> str_includes e ''@''
        \<and> (\<forall>j<i. \<not> str_includes (parts ! j) ''@'')"
  by (auto simp: pickPair_def find_Some_iff split: option.splits)

lemma pickPair_password:
  "pickPair parts = (e, p) \<Longrightarrow> p \<noteq> [] \<Longrightarrow>
     \<exists>i<length parts. parts ! i = p \<and> p \<noteq> e \<and> \<not> urlShaped p
        \<and> (\<forall>j<i. parts ! j = e \<or> urlShaped (parts ! j))"
  by (auto simp: pickPair_def find_Some_iff urlShaped_def split: option.splits)


lemma find_least:
  "i < length xs \<Longrightarrow> P (xs ! i) \<Longrightarrow> \<forall>j<i. \<not> P (xs ! j) \<Longrightarrow> find P xs = Some (xs ! i)"
  unfolding find_Some_iff by blast

lemma pickPair_no_email:
  "\<forall>q \<in> set parts. \<not> str_includes q ''@'' \<Longrightarrow> pickPair parts = ([], [])"
proof -
  assume "\<forall>q \<in> set parts. \<not> str_includes q ''@''"
  then have "find (\<lambda>p. str_includes p ''@'') parts = None"
    by (simp add: find_None_iff)
  then show ?thesis by (simp add: pickPair_def)
qed

lemma pickPair_takes_email:
  assumes "i < length parts" and "str_includes (parts ! i) ''@''"
    and "\<forall>j<i. \<not> str_includes (parts ! j) ''@''"
  shows "fst (pickPair parts) = parts ! i"
proof -
  have "find (\<lambda>p. str_includes p ''@'') parts = Some (parts ! i)"
    using assms by (intro find_least) auto
  then show ?thesis by (simp add: pickPair_def split: option.splits)
qed

lemma pickPair_no_password:
  assumes "\<forall>q \<in> set parts. q = fst (pickPair parts) \<or> urlShaped q"
  shows "snd (pickPair parts) = []"
proof (cases "find (\<lambda>p. str_includes p ''@'') parts")
  case None
  then show ?thesis by (simp add: pickPair_def)
next
  case (Some e)
  have "find (\<lambda>p. p \<noteq> e \<and> \<not> str_includes p ''http'' \<and> \<not> str_includes p ''.com'') parts = None
        \<or> fst (pickPair parts) = e"
    using Some by (simp add: pickPair_def split: option.splits)
  then have e: "fst (pickPair parts) = e"
    using Some by (simp add: pickPair_def split: option.splits)
  with assms have "\<forall>q \<in> set parts. q = e \<or> urlShaped q" by simp
  then have "find (\<lambda>p. p \<noteq> e \<and> \<not> str_includes p ''http'' \<and> \<not> str_includes p ''.com'') parts = None"
    by (auto simp: find_None_iff urlShaped_def)
  with Some show ?thesis by (simp add: pickPair_def)
qed

lemma pickPair_takes_password:
  assumes "\<exists>q \<in> set parts. str_includes q ''@''"
    and "k < length parts" and "parts ! k \<noteq> fst (pickPair parts)" and "\<not> urlShaped (parts ! k)"
    and "\<forall>j<k. parts ! j = fst (pickPair parts) \<or> urlShaped (parts ! j)"
  shows "snd (pickPair parts) = parts ! k"
proof -
  from assms(1) obtain e where e: "find (\<lambda>p. str_includes p ''@'') parts = Some e"
    by (cases "find (\<lambda>p. str_includes p ''@'') parts") (auto simp: find_None_iff)
  then have f: "fst (pickPair parts) = e"
    by (simp add: pickPair_def split: option.splits)
  have "find (\<lambda>p. p \<noteq> e \<and> \<not> str_includes p ''http'' \<and> \<not> str_includes p ''.com'') parts
          = Some (parts ! k)"
    using assms(2-5) unfolding f urlShaped_def by (intro find_least) auto
  with e show ?thesis by (simp add: pickPair_def)
qed

lemma separatorLoop_email_has_at:
  assumes "separatorLoop seps cleanLine = (e, p)" and "e \<noteq> []"
  shows "str_includes e ''@''"
proof (cases "find (\<lambda>sep. str_includes cleanLine [sep] \<and> 2 \<le> length (pieces sep cleanLine)) seps")
  case None
  with assms show ?thesis by (simp add: separatorLoop_find)
next
  case (Some sep)
  with assms(1) have "pickPair (pieces sep cleanLine) = (e, p)"
    by (simp add: separatorLoop_find)
  from pickPair_email [OF this assms(2)] show ?thesis by blast
qed

lemma separatorLoop_record:
  assumes "separatorLoop separators (cleanLineOf line) = (e, p)" and "e \<noteq> []" and "p \<noteq> []"
  shows "\<exists>r. parseLine line = Some r \<and> p_email r = e \<and> p_password r = p"
proof -
  have "recoverPair (cleanLineOf line) = (e, p)"
    using assms by (simp add: recoverPair_def)
  moreover have "str_includes e ''@''"
    using separatorLoop_email_has_at [OF assms(1,2)] .
  ultimately show ?thesis
    using assms(2,3) by (simp add: parseLine_def Let_def)
qed

text \<open>
  C6, as the specification states it, fails: in \<^verbatim>\<open>u@x pw:\<close> the first separator present is
  the colon, which leaves one piece; the loop goes on to the space and recovers a pair, where
  the step of the specification recovers none.
\<close>

theorem separator_counterexample:
  "find (\<lambda>sep. str_includes ''u@x pw:'' [sep]) separators = Some CHR '':''
   \<and> spec_separatorStep ''u@x pw:'' = ([], [])
   \<and> separatorLoop separators ''u@x pw:'' = (''u@x'', ''pw:'')
   \<and> parseAccountFile ''u@x pw:'' = [\<lparr> p_email = ''u@x'', p_password = ''pw:'', p_storeUrl = None \<rparr>]"
  by code_simp

text \<open>
  C6, amended. The separators are tried in the order colon, bar, space, comma, tab. The one
  used is the first that is present in the line and whose split leaves at least two non-empty
  trimmed pieces; only its pieces are used, and without such a separator the step recovers
  nothing. Among the pieces the email is the first one containing \<open>@\<close> (none: nothing is
  recovered), and the password is the first piece that differs from the email and is not
  URL-shaped, that is, contains neither \<^verbatim>\<open>http\<close> nor \<^verbatim>\<open>.com\<close> (none: the password stays
  empty). A pair recovered by this step, both parts non-empty, is the pair of the line's
  record.
\<close>

theorem separator_step_first_usable:
  "separators = [CHR '':'', CHR ''|'', CHR '' '', CHR '','', CHR 0x09]
   \<and> (\<forall>sep. pieces sep cleanLine = filter (\<lambda>p. p \<noteq> []) (map trim (splitOn sep cleanLine)))
   \<and> (\<forall>p. urlShaped p \<longleftrightarrow> str_includes p ''http'' \<or> str_includes p ''.com'')
   \<and> separatorLoop separators cleanLine =
       (case find (\<lambda>sep. str_includes cleanLine [sep] \<and> 2 \<le> length (pieces sep cleanLine))
               separators of
          None \<Rightarrow> ([], [])
        | Some sep \<Rightarrow> pickPair (pieces sep cleanLine))
   \<and> (\<forall>parts. (\<forall>q \<in> set parts. \<not> str_includes q ''@'') \<longrightarrow> pickPair parts = ([], []))
   \<and> (\<forall>parts i. i < length parts \<and> str_includes (parts ! i) ''@''
          \<and> (\<forall>j<i. \<not> str_includes (parts ! j) ''@'')
        \<longrightarrow> fst (pickPair parts) = parts ! i
          \<and> ((\<forall>q \<in> set parts. q = parts ! i \<or> urlShaped q) \<longrightarrow> snd (pickPair parts) = [])
          \<and> (\<forall>k<length parts. parts ! k \<noteq> parts ! i \<and> \<not> urlShaped (parts ! k)
                 \<and> (\<forall>j<k. parts ! j = parts ! i \<or> urlShaped (parts ! j))
               \<longrightarrow> snd (pickPair parts) = parts ! k))
   \<and> (\<forall>parts e p. pickPair parts = (e, p) \<and> e \<noteq> [] \<longrightarrow>
         (\<exists>i<length parts. parts ! i = e \<and> str_includes e ''@''
            \<and> (\<forall>j<i. \<not> str_includes (parts ! j) ''@'')))
   \<and> (\<forall>parts e p. pickPair parts = (e, p) \<and> p \<noteq> [] \<longrightarrow>
         (\<exists>i<length parts. parts ! i = p \<and> p \<noteq> e \<and> \<not> urlShaped p
            \<and> (\<forall>j<i. parts ! j = e \<or> urlShaped (parts ! j))))
   \<and> (\<forall>line e p. separatorLoop separators (cleanLineOf line) = (e, p) \<and> e \<noteq> [] \<and> p \<noteq> []
        \<longrightarrow> (\<exists>r. parseLine line = Some r \<and> p_email r = e \<and> p_password r = p))"
proof -
  have c6: "\<forall>parts i. i < length parts \<and> str_includes (parts ! i) ''@''
          \<and> (\<forall>j<i. \<not> str_includes (parts ! j) ''@'')
        \<longrightarrow> fst (pickPair parts) = parts ! i
          \<and> ((\<forall>q \<in> set parts. q = parts ! i \<or> urlShaped q) \<longrightarrow> snd (pickPair parts) = [])
          \<and> (\<forall>k<length parts. parts ! k \<noteq> parts ! i \<and> \<not> urlShaped (parts ! k)
                 \<and> (\<forall>j<k. parts ! j = parts ! i \<or> urlShaped (parts ! j))
               \<longrightarrow> snd (pickPair parts) = parts ! k)"
  proof (intro allI impI)
    fix parts :: "string list" and i
    assume a: "i < length parts \<and> str_includes (parts ! i) ''@''
          \<and> (\<forall>j<i. \<not> str_includes (parts ! j) ''@'')"
    then have f: "fst (pickPair parts) = parts ! i"
      by (simp add: pickPair_takes_email)
    from a have ex: "\<exists>q \<in> set parts. str_includes q ''@''"
      by (metis nth_mem)
    have n: "(\<forall>q \<in> set parts. q = parts ! i \<or> urlShaped q) \<longrightarrow> snd (pickPair parts) = []"
      using pickPair_no_password [of parts] f by simp
    have k: "\<forall>k<length parts. parts ! k \<noteq> parts ! i \<and> \<not> urlShaped (parts ! k)
                 \<and> (\<forall>j<k. parts ! j = parts ! i \<or> urlShaped (parts ! j))
               \<longrightarrow> snd (pickPair parts) = parts ! k"
      using pickPair_takes_password [OF ex] f by simp
    from f n k show "fst (pickPair parts) = parts ! i
          \<and> ((\<forall>q \<in> set parts. q = parts ! i \<or> urlShaped q) \<longrightarrow> snd (pickPair parts) = [])
          \<and> (\<forall>k<length parts. parts ! k \<noteq> parts ! i \<and> \<not> urlShaped (parts ! k)
                 \<and> (\<forall>j<k. parts ! j = parts ! i \<or> urlShaped (parts ! j))
               \<longrightarrow> snd (pickPair parts) = parts ! k)"
      by blast
  qed
  have c1: "separators = [CHR '':'', CHR ''|'', CHR '' '', CHR '','', CHR 0x09]"
    by (simp add: separators_def)
  have c2: "\<forall>sep. pieces sep cleanLine = filter (\<lambda>p. p \<noteq> []) (map trim (splitOn sep cleanLine))"
    by (simp add: pieces_def)
  have c3: "\<forall>p. urlShaped p \<longleftrightarrow> str_includes p ''http'' \<or> str_includes p ''.com''"
    by (simp add: urlShaped_def)
  have c5: "\<forall>parts. (\<forall>q \<in> set parts. \<not> str_includes q ''@'') \<longrightarrow> pickPair parts = ([], [])"
    by (simp add: pickPair_no_email)
  have c7: "\<forall>parts e p. pickPair parts = (e, p) \<and> e \<noteq> [] \<longrightarrow>
         (\<exists>i<length parts. parts ! i = e \<and> str_includes e ''@''
            \<and> (\<forall>j<i. \<not> str_includes (parts ! j) ''@''))"
    using pickPair_email by blast
  have c8: "\<forall>parts e p. pickPair parts = (e, p) \<and> p \<noteq> [] \<longrightarrow>
         (\<exists>i<length parts. parts ! i = p \<and> p \<noteq> e \<and> \<not> urlShaped p
            \<and> (\<forall>j<i. parts ! j = e \<or> urlShaped (parts ! j)))"
    using pickPair_password by blast
  have c9: "\<forall>line e p. separatorLoop separators (cleanLineOf line) = (e, p) \<and> e \<noteq> [] \<and> p \<noteq> []
        \<longrightarrow> (\<exists>r. parseLine line = Some r \<and> p_email r = e \<and> p_password r = p)"
    using separatorLoop_record by blast
  show ?thesis
    using c1 c2 c3 separatorLoop_find [of separators cleanLine] c5 c6 c7 c8 c9
    by (intro conjI)
qed

text \<open>
  The line \<^verbatim>\<open>pw1|u@x\<close>: the bar is used, the second piece is the email and the first the
  password, and the line's record holds this pair.
\<close>

theorem separator_step_first_usable_witness:
  "separatorLoop separators ''pw1|u@x'' = (''u@x'', ''pw1'')
   \<and> (\<exists>r. parseLine ''pw1|u@x'' = Some r \<and> p_email r = ''u@x'' \<and> p_password r = ''pw1'')"
proof -
  note t = separator_step_first_usable [of "''pw1|u@x''"]
  have h2: "find (\<lambda>sep. str_includes ''pw1|u@x'' [sep] \<and> 2 \<le> length (pieces sep ''pw1|u@x''))
             separators = Some CHR ''|''"
    by code_simp
  have h3: "pieces CHR ''|'' ''pw1|u@x'' = [''pw1'', ''u@x'']"
    by code_simp
  have h4: "cleanLineOf ''pw1|u@x'' = ''pw1|u@x''"
    by code_simp
  have loop: "separatorLoop separators ''pw1|u@x'' = pickPair [''pw1'', ''u@x'']"
    using t [THEN conjunct2, THEN conjunct2, THEN conjunct2, THEN conjunct1, unfolded h2]
    by (simp add: h3)
  have c6: "1 < length [''pw1'', ''u@x''] \<and> str_includes ([''pw1'', ''u@x''] ! 1) ''@''
          \<and> (\<forall>j<1. \<not> str_includes ([''pw1'', ''u@x''] ! j) ''@'')
        \<longrightarrow> fst (pickPair [''pw1'', ''u@x'']) = [''pw1'', ''u@x''] ! 1
          \<and> ((\<forall>q \<in> set [''pw1'', ''u@x'']. q = [''pw1'', ''u@x''] ! 1 \<or> urlShaped q)
               \<longrightarrow> snd (pickPair [''pw1'', ''u@x'']) = [])
          \<and> (\<forall>k<length [''pw1'', ''u@x''].
                 [''pw1'', ''u@x''] ! k \<noteq> [''pw1'', ''u@x''] ! 1
                 \<and> \<not> urlShaped ([''pw1'', ''u@x''] ! k)
                 \<and> (\<forall>j<k. [''pw1'', ''u@x''] ! j = [''pw1'', ''u@x''] ! 1
                            \<or> urlShaped ([''pw1'', ''u@x''] ! j))
               \<longrightarrow> snd (pickPair [''pw1'', ''u@x'']) = [''pw1'', ''u@x''] ! k)"
    using t [THEN conjunct2, THEN conjunct2, THEN conjunct2, THEN conjunct2, THEN conjunct2,
             THEN conjunct1]
    by (elim allE [where x = "[''pw1'', ''u@x'']"] allE [where x = "1::nat"])
  have prem: "1 < length [''pw1'', ''u@x''] \<and> str_includes ([''pw1'', ''u@x''] ! 1) ''@''
          \<and> (\<forall>j<1. \<not> str_includes ([''pw1'', ''u@x''] ! j) ''@'')"
    by simp
  from c6 prem have f: "fst (pickPair [''pw1'', ''u@x'']) = ''u@x''"
    and k: "\<forall>k<length [''pw1'', ''u@x''].
                 [''pw1'', ''u@x''] ! k \<noteq> [''pw1'', ''u@x''] ! 1
                 \<and> \<not> urlShaped ([''pw1'', ''u@x''] ! k)
                 \<and> (\<forall>j<k. [''pw1'', ''u@x''] ! j = [''pw1'', ''u@x''] ! 1
                            \<or> urlShaped ([''pw1'', ''u@x''] ! j))
               \<longrightarrow> snd (pickPair [''pw1'', ''u@x'']) = [''pw1'', ''u@x''] ! k"
    by simp_all
  have u: "\<not> urlShaped ''pw1''"
    by (simp add: urlShaped_def)
  from k [THEN spec, of 0] u have s: "snd (pickPair [''pw1'', ''u@x'']) = ''pw1''"
    by simp
  from f s loop have pair: "separatorLoop separators ''pw1|u@x'' = (''u@x'', ''pw1'')"
    by (simp add: prod_eq_iff)
  have "separatorLoop separators (cleanLineOf ''pw1|u@x'') = (''u@x'', ''pw1'')
        \<and> ''u@x'' \<noteq> [] \<and> ''pw1'' \<noteq> []
        \<longrightarrow> (\<exists>r. parseLine ''pw1|u@x'' = Some r \<and> p_email r = ''u@x'' \<and> p_password r = ''pw1'')"
    using t [THEN conjunct2, THEN conjunct2, THEN conjunct2, THEN conjunct2, THEN conjunct2,
             THEN conjunct2, THEN conjunct2, THEN conjunct2]
    by (elim allE [where x = "''pw1|u@x''"] allE [where x = "''u@x''"] allE [where x = "''pw1''"])
  with pair h4 have "\<exists>r. parseLine ''pw1|u@x'' = Some r \<and> p_email r = ''u@x'' \<and> p_password r = ''pw1''"
    by simp
  with pair show ?thesis by blast
qed

section \<open>Pause and resume outside their source state\<close>

text \<open>
  C9. A pause while the current job is not running (or there is no job), and a resume while
  the current job is not paused, is answered with status 400 and leaves the whole server
  state, and so the job's status, timestamps and counters, unchanged.
\<close>

theorem pause_resume_rejected:
  "((\<forall>j. getCurrentJob (store sv) = Some j \<longrightarrow> job_status j \<noteq> ''running'')
      \<longrightarrow> replyStatus (fst (pauseValidation now sv)) = 400 \<and> snd (pauseValidation now sv) = sv)
   \<and> ((\<forall>j. getCurrentJob (store sv) = Some j \<longrightarrow> job_status j \<noteq> ''paused'')
      \<longrightarrow> replyStatus (fst (resumeValidation now sv)) = 400 \<and> snd (resumeValidation now sv) = sv)"
  by (auto simp: pauseValidation_def resumeValidation_def split: option.splits)

theorem pause_resume_rejected_witness:
  "map_option job_status (getCurrentJob (store pausedServer)) = Some ''paused''
   \<and> replyStatus (fst (pauseValidation 3 pausedServer)) = 400
   \<and> snd (pauseValidation 3 pausedServer) = pausedServer"
proof -
  have h: "map_option job_status (getCurrentJob (store pausedServer)) = Some ''paused''"
    unfolding pausedServer_def by code_simp
  then have "\<forall>j. getCurrentJob (store pausedServer) = Some j \<longrightarrow> job_status j \<noteq> ''running''"
    by auto
  with h pause_resume_rejected [of pausedServer 3] show ?thesis by blast
qed


section \<open>The counters of a job\<close>

text \<open>
  Every stretch of execution keeps the account statuses among \<^verbatim>\<open>pending\<close>, \<^verbatim>\<open>valid\<close>,
  \<^verbatim>\<open>invalid\<close>, \<^verbatim>\<open>error\<close> and keeps processed = valid + invalid + error in every job.
\<close>

lemma set_map_set: "set (map_set k v m) \<subseteq> insert (k, v) (set m)"
  by (induction m) auto

lemma list_all_map_set:
  "P v \<Longrightarrow> list_all P (map_values m) \<Longrightarrow> list_all P (map_values (map_set k v m))"
  using set_map_set [of k v m] by (auto simp: list_all_iff map_values_def)

lemma list_all_map_delete:
  "list_all P (map_values m) \<Longrightarrow> list_all P (map_values (map_delete k m))"
  by (auto simp: list_all_iff map_values_def map_delete_def)

lemma list_all_fold_map_delete:
  "list_all P (map_values m) \<Longrightarrow> list_all P (map_values (fold map_delete ks m))"
  by (induction ks arbitrary: m) (auto simp: list_all_map_delete)

lemma map_of_values: "map_of m k = Some v \<Longrightarrow> v \<in> set (map_values m)"
  by (auto simp: map_values_def dest!: map_of_SomeD intro: rev_image_eqI)

lemma storeOK_addLog: "storeOK (addLog now l msg s) = storeOK s"
  by (simp add: storeOK_def addLog_def getAllAccounts_def)

lemma storeOK_clearLogs: "storeOK (clearLogs s) = storeOK s"
  by (simp add: storeOK_def clearLogs_def getAllAccounts_def)

lemma storeOK_updateAccountStatus:
  assumes ok: "storeOK s" and st: "st = ''valid'' \<or> st = ''invalid'' \<or> st = ''error''"
  shows "storeOK (updateAccountStatus now i st su em s)"
proof (cases "map_of (accounts s) i")
  case None
  with ok show ?thesis by (simp add: updateAccountStatus_def)
next
  case (Some a)
  have k: "knownStatus (a\<lparr> acc_status := st, acc_storeUrl := or_else su (acc_storeUrl a),
              acc_errorMessage := or_else em (acc_errorMessage a), acc_validatedAt := Some now \<rparr>)"
    using st unfolding knownStatus_def by simp
  from ok have "list_all knownStatus (map_values (accounts s))"
    by (simp add: storeOK_def getAllAccounts_def)
  from list_all_map_set [of knownStatus, OF k this]
  show ?thesis
    using ok Some by (simp add: storeOK_def updateAccountStatus_def getAllAccounts_def)
qed

lemma storeOK_createAccount:
  assumes ok: "storeOK s" and st: "ia_status ins = Some ''pending''"
  shows "storeOK (snd (createAccount ins s))"
proof -
  have k: "knownStatus (fst (createAccount ins s))"
    using st by (simp add: createAccount_def knownStatus_def Let_def)
  from ok have "list_all knownStatus (map_values (accounts s))"
    by (simp add: storeOK_def getAllAccounts_def)
  from list_all_map_set [of knownStatus, OF k this]
  show ?thesis
    using ok by (simp add: storeOK_def createAccount_def getAllAccounts_def Let_def)
qed

lemma storeOK_createAccountsBatch:
  "storeOK s \<Longrightarrow> \<forall>ins \<in> set inss. ia_status ins = Some ''pending'' \<Longrightarrow>
   storeOK (snd (createAccountsBatch inss s))"
proof (induction inss arbitrary: s)
  case Nil
  then show ?case by simp
next
  case (Cons ins rest)
  from Cons.prems have "storeOK (snd (createAccount ins s))"
    by (simp add: storeOK_createAccount)
  with Cons.IH [of "snd (createAccount ins s)"] Cons.prems(2) show ?case
    by (simp add: split_beta Let_def)
qed

lemma storeOK_createFile: "storeOK (snd (createFile now n sz lc st s)) = storeOK s"
  by (simp add: storeOK_def createFile_def getAllAccounts_def Let_def)

lemma storeOK_deleteFile: "storeOK s \<Longrightarrow> storeOK (deleteFile i s)"
  by (simp add: storeOK_def deleteFile_def getAllAccounts_def list_all_fold_map_delete)

lemma storeOK_createValidationJob:
  assumes ok: "storeOK s"
    and z: "ij_processedAccounts ins
              = ij_validAccounts ins + ij_invalidAccounts ins + ij_errorAccounts ins"
  shows "storeOK (snd (createValidationJob ins s))"
proof -
  have k: "countersAddUp (fst (createValidationJob ins s))"
    using z by (simp add: createValidationJob_def countersAddUp_def Let_def)
  from ok have "list_all countersAddUp (map_values (jobs s))"
    by (simp add: storeOK_def)
  from list_all_map_set [of countersAddUp, OF k this]
  show ?thesis
    using ok by (simp add: storeOK_def createValidationJob_def getAllAccounts_def Let_def)
qed

lemma storeOK_updateJobStatus:
  assumes ok: "storeOK s"
  shows "storeOK (updateJobStatus now i st s)"
proof (cases "map_of (jobs s) i")
  case None
  with ok show ?thesis by (simp add: updateJobStatus_def)
next
  case (Some j)
  with ok have cj: "countersAddUp j"
    by (auto simp: storeOK_def list_all_iff dest: map_of_values)
  obtain u where u: "updateJobStatus now i st s = s\<lparr> jobs := map_set i u (jobs s) \<rparr>"
    and cu: "countersAddUp u = countersAddUp j"
    using Some by (simp add: updateJobStatus_def Let_def countersAddUp_def)
  from ok have "list_all countersAddUp (map_values (jobs s))"
    by (simp add: storeOK_def)
  from list_all_map_set [of countersAddUp u, OF _ this] cj cu
  show ?thesis
    using ok by (simp add: u storeOK_def getAllAccounts_def)
qed

lemma storeOK_updateJobProgress:
  assumes ok: "storeOK s" and p: "p = v + iv + e"
  shows "storeOK (updateJobProgress i p v iv e s)"
proof (cases "map_of (jobs s) i")
  case None
  with ok show ?thesis by (simp add: updateJobProgress_def)
next
  case (Some j)
  have k: "countersAddUp (j\<lparr> job_processedAccounts := p, job_validAccounts := v,
              job_invalidAccounts := iv, job_errorAccounts := e \<rparr>)"
    using p by (simp add: countersAddUp_def)
  from ok have "list_all countersAddUp (map_values (jobs s))"
    by (simp add: storeOK_def)
  from list_all_map_set [of countersAddUp, OF k this]
  show ?thesis
    using ok Some by (simp add: storeOK_def updateJobProgress_def getAllAccounts_def)
qed

lemma tally_adds_up:
  "list_all knownStatus xs \<Longrightarrow>
   length (filter (\<lambda>a. acc_status a \<noteq> ''pending'') xs)
     = length (filter (\<lambda>a. acc_status a = ''valid'') xs)
       + length (filter (\<lambda>a. acc_status a = ''invalid'') xs)
       + length (filter (\<lambda>a. acc_status a = ''error'') xs)"
  by (induction xs) (auto simp: knownStatus_def)

lemma storeOK_finishCycle: "storeOK (store sv) \<Longrightarrow> storeOK (store (finishCycle now j sv))"
proof -
  assume ok: "storeOK (store sv)"
  then have t: "list_all knownStatus (getAllAccounts (store sv))" by (simp add: storeOK_def)
  show ?thesis
    using ok tally_adds_up [OF t]
    by (auto simp: finishCycle_def Let_def storeOK_updateJobProgress storeOK_updateJobStatus
        split: option.splits)
qed

lemma storeOK_fold_addLog:
  "storeOK (fold (\<lambda>a. addLog now l (f a)) xs s) = storeOK s"
  by (induction xs arbitrary: s) (auto simp: storeOK_addLog)

lemma storeOK_processValidationQueue:
  "storeOK (store sv) \<Longrightarrow> storeOK (store (processValidationQueue now sv))"
  by (auto simp: processValidationQueue_def Let_def storeOK_fold_addLog
      intro!: storeOK_finishCycle split: option.splits)

lemma storeOK_attemptAccount: "storeOK s \<Longrightarrow> storeOK (attemptAccount csrf net now it s)"
  by (simp add: attemptAccount_def recordResult_def storeOK_addLog storeOK_updateAccountStatus)

lemma storeOK_attemptReturns:
  "storeOK (store sv) \<Longrightarrow> storeOK (store (attemptReturns csrf net now k sv))"
  by (auto simp: attemptReturns_def Let_def storeOK_attemptAccount
      intro!: storeOK_finishCycle split: option.splits)

lemma storeOK_uploadLoop:
  "storeOK s \<Longrightarrow> storeOK (snd (uploadLoop now fs ups s))"
proof (induction fs arbitrary: ups s)
  case Nil
  then show ?case by simp
next
  case (Cons f rest)
  show ?case
  proof (cases "suffix ''.txt'' (u_originalname f)")
    case False
    with Cons show ?thesis by simp
  next
    case True
    have "storeOK (snd (createFile now (u_originalname f) (u_size f)
            (length (parseAccountFile (u_content f))) ''processed'' s))"
      using Cons.prems by (simp add: storeOK_createFile)
    then show ?thesis
      using True Cons.IH
      by (simp add: Let_def split_beta storeOK_addLog storeOK_createAccountsBatch)
  qed
qed

lemma storeOK_startValidation:
  "storeOK (store sv) \<Longrightarrow> storeOK (store (snd (startValidation now body sv)))"
  by (auto simp: startValidation_def Let_def split_beta storeOK_addLog storeOK_updateJobStatus
      storeOK_createValidationJob
      intro!: storeOK_processValidationQueue split: option.splits)

lemma storeOK_step: "storeOK (store sv) \<Longrightarrow> storeOK (store (step csrf now e sv))"
proof (cases e)
  case (Upload fs)
  assume "storeOK (store sv)"
  with Upload show ?thesis
    by (simp add: uploadFiles_def split_beta storeOK_uploadLoop)
next
  case (DeleteFile i)
  assume "storeOK (store sv)"
  with DeleteFile show ?thesis by (simp add: storeOK_deleteFile)
next
  case (Start body)
  assume "storeOK (store sv)"
  with Start show ?thesis by (simp add: storeOK_startValidation)
next
  case Pause
  assume "storeOK (store sv)"
  with Pause show ?thesis
    by (auto simp: pauseValidation_def storeOK_addLog storeOK_updateJobStatus split: option.splits)
next
  case Resume
  assume "storeOK (store sv)"
  with Resume show ?thesis
    by (auto simp: resumeValidation_def storeOK_addLog storeOK_updateJobStatus
        intro!: storeOK_processValidationQueue split: option.splits)
next
  case Stop
  assume "storeOK (store sv)"
  with Stop show ?thesis
    by (auto simp: stopValidation_def storeOK_addLog storeOK_updateJobStatus split: option.splits)
next
  case TimerFires
  assume "storeOK (store sv)"
  with TimerFires show ?thesis
    by (auto simp: timerFires_def intro!: storeOK_processValidationQueue)
next
  case (AttemptReturns k net)
  assume "storeOK (store sv)"
  with AttemptReturns show ?thesis by (simp add: storeOK_attemptReturns)
next
  case ClearLogs
  assume "storeOK (store sv)"
  with ClearLogs show ?thesis by (simp add: storeOK_clearLogs)
qed

lemma storeOK_run: "storeOK (store sv) \<Longrightarrow> storeOK (store (run csrf now es sv))"
  by (induction es arbitrary: now sv) (auto simp: storeOK_step)

lemma storeOK_initial: "storeOK (store initialServer)"
  by (simp add: initialServer_def emptyStorage_def storeOK_def getAllAccounts_def map_values_def)

text \<open>In every state a run reaches from the initial server, the counters of every job add up.\<close>

lemma counters_add_up_in_every_run:
  "j \<in> set (map_values (jobs (store (run csrf now es initialServer)))) \<Longrightarrow>
   job_processedAccounts j = job_validAccounts j + job_invalidAccounts j + job_errorAccounts j"
  using storeOK_run [OF storeOK_initial, of csrf now es]
  by (auto simp: storeOK_def list_all_iff countersAddUp_def)

section \<open>Runs that leave the specified behaviour\<close>

text \<open>
  C2. A start while job 1 is running is answered with status 200 and stores a second
  running job.
\<close>

theorem second_start_creates_job:
  "replyStatus (fst (startValidation 2 defaultBody
       (run noCsrf 0 [Upload [fileA], Start defaultBody] initialServer))) = 200
   \<and> jobView (run noCsrf 0 [Upload [fileA], Start defaultBody] initialServer)
       = [(1, ''running'', 1, 0, 0, 0, 0)]
   \<and> jobView (run noCsrf 0 [Upload [fileA], Start defaultBody, Start defaultBody] initialServer)
       = [(1, ''running'', 1, 0, 0, 0, 0), (2, ''running'', 1, 0, 0, 0, 0)]"
  by code_simp

text \<open>
  C3. A stop while the batch of job 1 waits for the network sets the job to \<^verbatim>\<open>stopped\<close>;
  when the attempt returns, the end of the cycle finds the queue empty and sets the same job
  to \<^verbatim>\<open>completed\<close>.
\<close>

theorem stopped_job_completed:
  "jobView (run noCsrf 0 [Upload [fileA], Start defaultBody, Stop] initialServer)
       = [(1, ''stopped'', 1, 0, 0, 0, 0)]
   \<and> jobView (run noCsrf 0 [Upload [fileA], Start defaultBody, Stop, AttemptReturns 0 netDown]
        initialServer) = [(1, ''completed'', 1, 1, 0, 1, 0)]"
  by code_simp

text \<open>
  C4. After a first job has processed one account, a second job started for one new pending
  account has total 1; the end of its cycle counts both stored accounts and writes
  processed 2.
\<close>

theorem processed_exceeds_total:
  "jobView (run noCsrf 0 [Upload [fileA], Start defaultBody, AttemptReturns 0 netDown,
        Upload [fileB], Start defaultBody, AttemptReturns 0 netDown] initialServer)
     = [(1, ''completed'', 1, 1, 0, 1, 0), (2, ''completed'', 1, 2, 0, 2, 0)]"
  by code_simp

end
